theory Spec2Isabelle
  imports Complex_Main "HOL-Library.Multiset"
begin

section \<open>Python strings\<close>

text \<open>
  A Python \<open>str\<close> is a sequence of Unicode code points; the category labels of the
  program carry code points far beyond one byte, so a string is modelled as the list of
  its code points. \<open>ascii\<close> embeds an ASCII literal.
\<close>

type_synonym codepoint = nat
type_synonym pystr = "codepoint list"

definition ascii :: "string \<Rightarrow> pystr" where
  "ascii s = map of_char s"

definition in_ranges :: "(nat \<times> nat) list \<Rightarrow> nat \<Rightarrow> bool" where
  "in_ranges rs c = list_ex (\<lambda>(lo, hi). lo \<le> c \<and> c \<le> hi) rs"

text \<open>
  \<open>str.isspace\<close> on one code point: the white space of the Unicode character database
  (bidirectional class WS, B or S, or category Zs).
\<close>

definition space_ranges :: "(nat \<times> nat) list" where
  "space_ranges = [(9, 13), (28, 32), (133, 133), (160, 160), (5760, 5760), (8192, 8202),
     (8232, 8233), (8239, 8239), (8287, 8287), (12288, 12288)]"

definition isspace :: "codepoint \<Rightarrow> bool" where
  "isspace c = in_ranges space_ranges c"

text \<open>
  The code points with a decimal value (category Nd, Unicode 14.0 as shipped with
  CPython 3.11): runs of ten, the value being the offset in the run. \<open>int\<close> accepts
  exactly these as digits.
\<close>

definition decimal_ranges :: "(nat \<times> nat) list" where
  "decimal_ranges = [(48, 57), (1632, 1641), (1776, 1785), (1984, 1993), (2406, 2415),
     (2534, 2543), (2662, 2671), (2790, 2799), (2918, 2927), (3046, 3055), (3174, 3183),
     (3302, 3311), (3430, 3439), (3558, 3567), (3664, 3673), (3792, 3801), (3872, 3881),
     (4160, 4169), (4240, 4249), (6112, 6121), (6160, 6169), (6470, 6479), (6608, 6617),
     (6784, 6793), (6800, 6809), (6992, 7001), (7088, 7097), (7232, 7241), (7248, 7257),
     (42528, 42537), (43216, 43225), (43264, 43273), (43472, 43481), (43504, 43513),
     (43600, 43609), (44016, 44025), (65296, 65305), (66720, 66729), (68912, 68921),
     (69734, 69743), (69872, 69881), (69942, 69951), (70096, 70105), (70384, 70393),
     (70736, 70745), (70864, 70873), (71248, 71257), (71360, 71369), (71472, 71481),
     (71904, 71913), (72016, 72025), (72784, 72793), (73040, 73049), (73120, 73129),
     (92768, 92777), (92864, 92873), (93008, 93017), (120782, 120831), (123200, 123209),
     (123632, 123641), (125264, 125273), (130032, 130041)]"

text \<open>
  The code points that \<open>str.isdigit\<close> accepts although they have no decimal value
  (superscripts, subscripts, circled digits and the like).
\<close>

definition digit_only_ranges :: "(nat \<times> nat) list" where
  "digit_only_ranges = [(178, 179), (185, 185), (4969, 4977), (6618, 6618), (8304, 8304),
     (8308, 8313), (8320, 8329), (9312, 9320), (9332, 9340), (9352, 9360), (9450, 9450),
     (9461, 9469), (9471, 9471), (10102, 10110), (10112, 10120), (10122, 10130),
     (68160, 68163), (69216, 69224), (69714, 69722), (127232, 127242)]"

definition decimal_value :: "codepoint \<Rightarrow> nat option" where
  "decimal_value c =
     (case find (\<lambda>(lo, hi). lo \<le> c \<and> c \<le> hi) decimal_ranges of
        None \<Rightarrow> None
      | Some (lo, hi) \<Rightarrow> Some ((c - lo) mod 10))"

definition is_decimal_char :: "codepoint \<Rightarrow> bool" where
  "is_decimal_char c = in_ranges decimal_ranges c"

definition is_digit_char :: "codepoint \<Rightarrow> bool" where
  "is_digit_char c = (is_decimal_char c \<or> in_ranges digit_only_ranges c)"

text \<open>\<open>s.isdigit()\<close>: at least one character, and every character is a digit.\<close>

definition isdigit :: "pystr \<Rightarrow> bool" where
  "isdigit s = (s \<noteq> [] \<and> list_all is_digit_char s)"

text \<open>\<open>s.strip()\<close> removes the leading and trailing white space.\<close>

definition lstrip :: "pystr \<Rightarrow> pystr" where
  "lstrip s = dropWhile isspace s"

definition rstrip :: "pystr \<Rightarrow> pystr" where
  "rstrip s = rev (dropWhile isspace (rev s))"

definition strip :: "pystr \<Rightarrow> pystr" where
  "strip s = rstrip (lstrip s)"

text \<open>
  \<open>s.split(sep)\<close> for a separator of one character: the fields between the
  separators, always at least one.
\<close>

fun split :: "codepoint \<Rightarrow> pystr \<Rightarrow> pystr list" where
  "split sep [] = [[]]"
| "split sep (c # cs) =
     (if c = sep then [] # split sep cs
      else (case split sep cs of [] \<Rightarrow> [[c]] | p # ps \<Rightarrow> (c # p) # ps))"

datatype py_error = ValueError | IndexError | OverflowError

text \<open>
  \<open>int(s)\<close> in base ten. Leading and trailing white space is skipped (the ASCII white
  space \<open>\t\n\v\f\r\<close> and blank, and the white space beyond ASCII), one sign may lead,
  single underscores may stand between digits, every digit must have a decimal value, and
  more than 4300 digits are refused (the default limit of CPython 3.11).
\<close>

definition int_space :: "codepoint \<Rightarrow> bool" where
  "int_space c = ((9 \<le> c \<and> c \<le> 13) \<or> c = 32 \<or> (127 \<le> c \<and> isspace c))"

fun digits_value :: "nat \<Rightarrow> pystr \<Rightarrow> nat option" where
  "digits_value acc [] = Some acc"
| "digits_value acc (c # cs) =
     (case decimal_value c of
        None \<Rightarrow> None
      | Some d \<Rightarrow> digits_value (10 * acc + d) cs)"

fun drop_underscores :: "pystr \<Rightarrow> pystr option" where
  "drop_underscores [] = Some []"
| "drop_underscores [c] = (if c = 95 then None else Some [c])"
| "drop_underscores (c # d # cs) =
     (if c = 95 then None
      else if d = 95 then
        (case cs of
           [] \<Rightarrow> None
         | e # es \<Rightarrow> (if e = 95 then None else map_option ((#) c) (drop_underscores cs)))
      else map_option ((#) c) (drop_underscores (d # cs)))"

definition max_str_digits :: nat where
  "max_str_digits = 4300"

definition py_int :: "pystr \<Rightarrow> py_error + int" where
  "py_int s =
     (let t = rev (dropWhile int_space (rev (dropWhile int_space s)));
          neg = (t \<noteq> [] \<and> hd t = 45);
          body = (if t \<noteq> [] \<and> (hd t = 45 \<or> hd t = 43) then tl t else t)
      in case drop_underscores body of
           None \<Rightarrow> Inl ValueError
         | Some ds \<Rightarrow>
             if ds = [] \<or> max_str_digits < length ds then Inl ValueError
             else (case digits_value 0 ds of
                     None \<Rightarrow> Inl ValueError
                   | Some n \<Rightarrow> Inr (if neg then - int n else int n)))"

section \<open>The episode log\<close>

text \<open>An episode is the dictionary that \<open>load_thoughts\<close> and \<open>log_overthinking\<close> build.\<close>

record thought =
  timestamp :: pystr
  category :: pystr
  intensity :: int
  note_text :: pystr

definition PIPE :: codepoint where
  "PIPE = 124"

text \<open>
  The body of the loop of \<open>load_thoughts\<close> on one line of the file: \<open>Inr None\<close> when
  the line gives no episode, \<open>Inr (Some t)\<close> when \<open>t\<close> is appended, \<open>Inl e\<close> when
  \<open>int\<close> raises (the exception leaves the loop).
\<close>

definition load_line :: "pystr \<Rightarrow> py_error + thought option" where
  "load_line raw =
     (let line = strip raw in
      if line \<noteq> [] \<and> PIPE \<in> set line then
        (let parts = split PIPE line in
         if 4 \<le> length parts then
           (case (if isdigit (strip (parts ! 2)) then py_int (strip (parts ! 2)) else Inr 5) of
              Inl e \<Rightarrow> Inl e
            | Inr n \<Rightarrow>
                Inr (Some \<lparr>timestamp = strip (parts ! 0), category = strip (parts ! 1),
                          intensity = n,
                          note_text = (if 3 < length parts then strip (parts ! 3) else [])\<rparr>))
         else Inr None)
      else Inr None)"

text \<open>
  The loop itself: episodes are appended to the list in place, so what was loaded before
  an exception stays; the second component is the exception that ended the loop, if any.
\<close>

fun load_lines :: "pystr list \<Rightarrow> thought list \<Rightarrow> thought list \<times> py_error option" where
  "load_lines [] acc = (acc, None)"
| "load_lines (l # ls) acc =
     (case load_line l of
        Inl e \<Rightarrow> (acc, Some e)
      | Inr None \<Rightarrow> load_lines ls acc
      | Inr (Some t) \<Rightarrow> load_lines ls (acc @ [t]))"

text \<open>One record as \<open>save_thoughts\<close> writes it; \<open>str\<close> of an integer is its decimal form.\<close>

fun nat_digits :: "nat \<Rightarrow> pystr" where
  "nat_digits n = (if n < 10 then [48 + n] else nat_digits (n div 10) @ [48 + n mod 10])"

definition py_str_int :: "int \<Rightarrow> pystr" where
  "py_str_int i = (if i < 0 then 45 # nat_digits (nat (- i)) else nat_digits (nat i))"

definition write_line :: "thought \<Rightarrow> pystr" where
  "write_line t =
     timestamp t @ [PIPE] @ category t @ [PIPE] @ py_str_int (intensity t) @ [PIPE] @ note_text t @ [10]"

text \<open>
  What the loop body makes of four fields: the episode of the trimmed fields, the
  intensity read from the third one.
\<close>

definition fields_result :: "pystr \<Rightarrow> pystr \<Rightarrow> pystr \<Rightarrow> pystr \<Rightarrow> py_error + thought option" where
  "fields_result f0 f1 f2 f3 =
     (case (if isdigit (strip f2) then py_int (strip f2) else Inr 5) of
        Inl e \<Rightarrow> Inl e
      | Inr n \<Rightarrow> Inr (Some \<lparr>timestamp = strip f0, category = strip f1, intensity = n,
                          note_text = strip f3\<rparr>))"

section \<open>Pattern analysis and weekly summary\<close>

text \<open>
  A naive \<open>datetime\<close> is modelled by the number of microseconds since the start of the
  first of January of the year 1: comparing two of them and subtracting a \<open>timedelta\<close> are
  then the order and the subtraction of integers, and the hour and the day of the week are
  read off the number. The parser \<open>datetime.strptime(_, "%Y-%m-%d %H:%M:%S")\<close> of the
  standard library is a parameter of the model: \<open>strptime s\<close> is \<open>None\<close> where the parser
  raises.
\<close>

type_synonym datetime = int
type_synonym parser = "pystr \<Rightarrow> datetime option"


definition hour_of :: "datetime \<Rightarrow> nat" where
  "hour_of dt = nat ((dt div 3600000000) mod 24)"


definition get_time_period :: "nat \<Rightarrow> pystr" where
  "get_time_period hour =
     (if 5 \<le> hour \<and> hour < 12 then [127749, 32] @ ascii ''Morning''
      else if 12 \<le> hour \<and> hour < 17 then [9728, 65039, 32] @ ascii ''Afternoon''
      else if 17 \<le> hour \<and> hour < 21 then [127750, 32] @ ascii ''Evening''
      else [127769, 32] @ ascii ''Night'')"

text \<open>
  A dictionary of counts keeps its keys in the order of their first insertion, which
  decides ties in \<open>max\<close> and \<open>min\<close>: it is an association list. \<open>bump k d\<close> is
  \<open>d[k] += 1\<close>.
\<close>

fun bump :: "'k \<Rightarrow> ('k \<times> nat) list \<Rightarrow> ('k \<times> nat) list" where
  "bump k [] = [(k, 1)]"
| "bump k ((k', n) # kvs) = (if k' = k then (k', Suc n) # kvs else (k', n) # bump k kvs)"

text \<open>\<open>max(d, key=d.get)\<close> and \<open>min(d, key=d.get)\<close>: the first key of the extreme count.\<close>

fun first_max :: "('k \<times> nat) list \<Rightarrow> ('k \<times> nat) option" where
  "first_max [] = None"
| "first_max (kv # kvs) =
     (case first_max kvs of
        None \<Rightarrow> Some kv
      | Some m \<Rightarrow> if snd kv < snd m then Some m else Some kv)"


record tally =
  hour_counts :: "(nat \<times> nat) list"
  period_counts :: "(pystr \<times> nat) list"
  category_counts :: "(pystr \<times> nat) list"
  intensity_sum :: int

text \<open>The loop of \<open>analyze_patterns\<close>: an episode whose timestamp does not parse is passed over.\<close>

fun tally_loop :: "parser \<Rightarrow> thought list \<Rightarrow> tally \<Rightarrow> tally" where
  "tally_loop strptime [] s = s"
| "tally_loop strptime (t # ts) s =
     (case strptime (timestamp t) of
        None \<Rightarrow> tally_loop strptime ts s
      | Some dt \<Rightarrow>
          tally_loop strptime ts
            \<lparr>hour_counts = bump (hour_of dt) (hour_counts s),
             period_counts = bump (get_time_period (hour_of dt)) (period_counts s),
             category_counts = bump (category t) (category_counts s),
             intensity_sum = intensity_sum s + intensity t\<rparr>)"

record insights =
  episodes :: nat
  avg_intensity :: rat
  peak_hour :: nat
  peak_period :: pystr
  top_category :: "pystr \<times> nat"

datatype analysis = Not_enough_data | Could_not_analyze | Insights insights

definition analyze_patterns :: "parser \<Rightarrow> thought list \<Rightarrow> py_error + analysis" where
  "analyze_patterns strptime thoughts =
     (if thoughts = [] then Inr Not_enough_data
      else
        (let s = tally_loop strptime thoughts
                   \<lparr>hour_counts = [], period_counts = [], category_counts = [],
                    intensity_sum = 0\<rparr>
         in case first_max (hour_counts s) of
              None \<Rightarrow> Inr Could_not_analyze
            | Some (hour, _) \<Rightarrow>
                (case first_max (period_counts s) of
                   None \<Rightarrow> Inl ValueError
                 | Some (period, _) \<Rightarrow>
                     Inr (Insights
                       \<lparr>episodes = length thoughts,
                        avg_intensity = of_int (intensity_sum s) / of_nat (length thoughts),
                        peak_hour = hour,
                        peak_period = period,
                        top_category =
                          (case first_max (category_counts s) of
                             None \<Rightarrow> (ascii ''Unknown'', 0)
                           | Some c \<Rightarrow> c)\<rparr>))))"




definition intensity_avg :: "thought list \<Rightarrow> rat" where
  "intensity_avg ts = of_int (sum_list (map intensity ts)) / of_nat (length ts)"







text \<open>The timestamp of the episode parses.\<close>

definition parses :: "parser \<Rightarrow> thought \<Rightarrow> bool" where
  "parses strptime t = (strptime (timestamp t) \<noteq> None)"

text \<open>
  An instance of the parser for concrete inputs. It reads the form that \<open>strftime\<close> writes
  with the same format: four, two, two, two, two and two ASCII digits between \<open>-\<close>, one
  blank and \<open>:\<close>, naming a day of the calendar and a time of the day. The standard parser
  gives these stamps the same instant; it accepts more (fields of one digit, several
  blanks, digits of other scripts).
\<close>

definition ascii_number :: "pystr \<Rightarrow> nat option" where
  "ascii_number s =
     (if s \<noteq> [] \<and> list_all (\<lambda>c. 48 \<le> c \<and> c \<le> 57) s then digits_value 0 s else None)"

definition is_leap :: "nat \<Rightarrow> bool" where
  "is_leap y = (y mod 4 = 0 \<and> (y mod 100 \<noteq> 0 \<or> y mod 400 = 0))"

definition days_in_month :: "nat \<Rightarrow> nat \<Rightarrow> nat" where
  "days_in_month y m =
     (if m = 2 then (if is_leap y then 29 else 28)
      else if m = 4 \<or> m = 6 \<or> m = 9 \<or> m = 11 then 30 else 31)"

definition days_before_year :: "nat \<Rightarrow> nat" where
  "days_before_year y = (y - 1) * 365 + (y - 1) div 4 - (y - 1) div 100 + (y - 1) div 400"

definition days_before_month :: "nat \<Rightarrow> nat \<Rightarrow> nat" where
  "days_before_month y m = sum_list (map (days_in_month y) [1..<m])"

definition instant :: "nat \<Rightarrow> nat \<Rightarrow> nat \<Rightarrow> nat \<Rightarrow> nat \<Rightarrow> nat \<Rightarrow> datetime" where
  "instant y m d hh mm ss =
     (int (days_before_year y + days_before_month y m + (d - 1)) * 86400
        + int (hh * 3600 + mm * 60 + ss)) * 1000000"

definition strptime_std :: parser where
  "strptime_std s =
     (if length s = 19 \<and> s ! 4 = 45 \<and> s ! 7 = 45 \<and> s ! 10 = 32 \<and> s ! 13 = 58 \<and> s ! 16 = 58 then
        (case (ascii_number (take 4 s), ascii_number (take 2 (drop 5 s)),
               ascii_number (take 2 (drop 8 s)), ascii_number (take 2 (drop 11 s)),
               ascii_number (take 2 (drop 14 s)), ascii_number (take 2 (drop 17 s))) of
           (Some y, Some m, Some d, Some hh, Some mm, Some ss) \<Rightarrow>
             if 1 \<le> y \<and> 1 \<le> m \<and> m \<le> 12 \<and> 1 \<le> d \<and> d \<le> days_in_month y m \<and>
                hh < 24 \<and> mm < 60 \<and> ss < 60
             then Some (instant y m d hh mm ss) else None
         | _ \<Rightarrow> None)
      else None)"

section \<open>The daily series\<close>

text \<open>
  Python floats are modelled by rational numbers: every finite float is one, and the
  arithmetic is taken exact (the rounding of the machine operations, infinities and NaN
  are outside the model). The constants \<open>0.9\<close> and \<open>1.1\<close> stand for nine and eleven tenths.
\<close>

record 'f entry =
  date :: pystr
  minutes :: 'f

record stats =
  days_tracked :: nat
  avg_minutes :: rat
  median_minutes :: rat
  highest_day :: rat
  lowest_day :: rat
  total_hours :: rat
  trend :: pystr

text \<open>\<open>xs[i]\<close>: a negative index counts from the end, an index out of range raises.\<close>

definition py_index :: "'a list \<Rightarrow> int \<Rightarrow> py_error + 'a" where
  "py_index xs i =
     (if 0 \<le> i \<and> i < int (length xs) then Inr (xs ! nat i)
      else if i < 0 \<and> - int (length xs) \<le> i then Inr (xs ! nat (int (length xs) + i))
      else Inl IndexError)"

text \<open>\<open>max\<close> and \<open>min\<close> of a list raise on the empty list.\<close>

definition py_max :: "rat list \<Rightarrow> py_error + rat" where
  "py_max xs = (case xs of [] \<Rightarrow> Inl ValueError | x # ys \<Rightarrow> Inr (fold max ys x))"

definition py_min :: "rat list \<Rightarrow> py_error + rat" where
  "py_min xs = (case xs of [] \<Rightarrow> Inl ValueError | x # ys \<Rightarrow> Inr (fold min ys x))"

definition calculate_median :: "rat list \<Rightarrow> py_error + rat" where
  "calculate_median values =
     (let sorted_vals = sort values;
          n = length sorted_vals;
          mid = n div 2
      in if n mod 2 = 0 then
           (case py_index sorted_vals (int mid - 1) of
              Inl e \<Rightarrow> Inl e
            | Inr a \<Rightarrow>
                (case py_index sorted_vals (int mid) of
                   Inl e \<Rightarrow> Inl e
                 | Inr b \<Rightarrow> Inr ((a + b) / 2)))
         else py_index sorted_vals (int mid))"

definition calculate_trend :: "rat list \<Rightarrow> pystr" where
  "calculate_trend mins =
     (if length mins < 2 then ascii ''neutral''
      else
        (let mid = length mins div 2;
             first_half_avg = (if 0 < mid then sum_list (take mid mins) / of_nat mid else 0);
             second_half_avg =
               (if mid < length mins then sum_list (drop mid mins) / of_nat (length mins - mid)
                else 0)
         in if second_half_avg < first_half_avg * (9 / 10) then ascii ''improving''
            else if first_half_avg * (11 / 10) < second_half_avg then ascii ''increasing''
            else ascii ''stable''))"

definition calculate_stats :: "rat entry list \<Rightarrow> py_error + stats option" where
  "calculate_stats data =
     (if data = [] then Inr None
      else
        (let mins = map minutes data in
         case calculate_median mins of
           Inl e \<Rightarrow> Inl e
         | Inr med \<Rightarrow>
             (case py_max mins of
                Inl e \<Rightarrow> Inl e
              | Inr hi \<Rightarrow>
                  (case py_min mins of
                     Inl e \<Rightarrow> Inl e
                   | Inr lo \<Rightarrow>
                       Inr (Some \<lparr>days_tracked = length mins,
                                  avg_minutes = sum_list mins / of_nat (length mins),
                                  median_minutes = med,
                                  highest_day = hi,
                                  lowest_day = lo,
                                  total_hours = sum_list mins / 60,
                                  trend = calculate_trend mins\<rparr>)))))"

text \<open>The arithmetic mean, as the specification words it.\<close>

definition mean :: "rat list \<Rightarrow> rat" where
  "mean xs = sum_list xs / of_nat (length xs)"

section \<open>Reading the daily CSV file\<close>

text \<open>
  \<open>s.lower()\<close>. The ASCII capitals go to their small letters. Beyond ASCII the lowercase
  form holds an ASCII letter for two code points only, U+0130 and U+212A; every other code
  point is kept as it is, its lowercase form holding no ASCII character either, so that a
  word of ASCII letters occurs in the model exactly where it occurs in the lowercase form.
\<close>

definition lower_char :: "codepoint \<Rightarrow> pystr" where
  "lower_char c =
     (if 65 \<le> c \<and> c \<le> 90 then [c + 32]
      else if c = 304 then [105, 775]
      else if c = 8490 then [107]
      else [c])"

definition lower :: "pystr \<Rightarrow> pystr" where
  "lower s = concat (map lower_char s)"

fun startswith :: "pystr \<Rightarrow> pystr \<Rightarrow> bool" where
  "startswith s [] = True"
| "startswith [] (k # ks) = False"
| "startswith (c # cs) (k # ks) = (c = k \<and> startswith cs ks)"

text \<open>\<open>k in s\<close> for strings: \<open>k\<close> occurs in \<open>s\<close> as a run of consecutive characters.\<close>

fun contains :: "pystr \<Rightarrow> pystr \<Rightarrow> bool" where
  "contains k [] = (k = [])"
| "contains k (c # cs) = (startswith (c # cs) k \<or> contains k cs)"

definition header_keywords :: "pystr list" where
  "header_keywords = [ascii ''date'', ascii ''minutes'', ascii ''time'', ascii ''duration'']"

definition COMMA :: codepoint where
  "COMMA = 44"

text \<open>The messages that \<open>read_daily_data\<close> prints while it reads.\<close>

datatype notice = Skipping_header pystr | Skipping_invalid nat pystr

text \<open>
  The body of the loop of \<open>read_daily_data\<close> on the line of number \<open>line_num\<close>: the
  entry appended to \<open>data\<close>, if any, and the message printed, if any. The built-in
  \<open>float\<close> is a parameter: \<open>float_of s\<close> is \<open>None\<close> where \<open>float(s)\<close> raises
  \<open>ValueError\<close>.
\<close>

definition row_step ::
  "(pystr \<Rightarrow> 'f option) \<Rightarrow> nat \<Rightarrow> pystr \<Rightarrow> 'f entry option \<times> notice option" where
  "row_step float_of line_num raw =
     (let line = strip raw in
      if line = [] then (None, None)
      else if line_num = 1 \<or> list_ex (\<lambda>keyword. contains keyword (lower line)) header_keywords
      then (None, Some (Skipping_header line))
      else
        (let parts = split COMMA line in
         if 2 \<le> length parts then
           (case float_of (strip (parts ! 1)) of
              None \<Rightarrow> (None, Some (Skipping_invalid line_num line))
            | Some m \<Rightarrow> (Some \<lparr>date = strip (parts ! 0), minutes = m\<rparr>, None))
         else (None, None)))"

fun read_rows ::
  "(pystr \<Rightarrow> 'f option) \<Rightarrow> nat \<Rightarrow> pystr list \<Rightarrow> 'f entry list \<times> notice list \<Rightarrow>
     'f entry list \<times> notice list" where
  "read_rows float_of line_num [] acc = acc"
| "read_rows float_of line_num (raw # rest) (data, out) =
     (case row_step float_of line_num raw of
        (e, n) \<Rightarrow>
          read_rows float_of (Suc line_num) rest
            (data @ (case e of None \<Rightarrow> [] | Some x \<Rightarrow> [x]),
             out @ (case n of None \<Rightarrow> [] | Some x \<Rightarrow> [x])))"

text \<open>
  Reading a text file line by line: \<open>\r\n\<close> and \<open>\r\<close> are read as \<open>\n\<close>, and every
  line keeps its \<open>\n\<close>.
\<close>

fun universal_newlines :: "pystr \<Rightarrow> pystr" where
  "universal_newlines [] = []"
| "universal_newlines [c] = [if c = 13 then 10 else c]"
| "universal_newlines (c # d # cs) =
     (if c = 13 \<and> d = 10 then 10 # universal_newlines cs
      else if c = 13 then 10 # universal_newlines (d # cs)
      else c # universal_newlines (d # cs))"

fun keepends :: "pystr \<Rightarrow> pystr list" where
  "keepends [] = []"
| "keepends (c # cs) =
     (if c = 10 then [10] # keepends cs
      else (case keepends cs of [] \<Rightarrow> [[c]] | l # ls \<Rightarrow> (c # l) # ls))"

definition readlines :: "pystr \<Rightarrow> pystr list" where
  "readlines text = keepends (universal_newlines text)"

text \<open>
  \<open>read_daily_data\<close> on the file, \<open>None\<close> for a file that does not exist: the entries
  read.
\<close>

definition read_daily_data :: "(pystr \<Rightarrow> 'f option) \<Rightarrow> pystr option \<Rightarrow> 'f entry list" where
  "read_daily_data float_of file =
     (case file of
        None \<Rightarrow> []
      | Some text \<Rightarrow> fst (read_rows float_of 1 (readlines text) ([], [])))"

text \<open>
  What a line after the first one adds to the series, in the words of the specification:
  nothing for a blank line, for a line with a header keyword, for a line of fewer than two
  fields and for a line whose second field is no number; the entry of its first two fields
  otherwise.
\<close>

definition row_entry :: "(pystr \<Rightarrow> 'f option) \<Rightarrow> pystr \<Rightarrow> 'f entry option" where
  "row_entry float_of raw =
     (if strip raw = [] then None
      else if \<exists>keyword \<in> set header_keywords. contains keyword (lower (strip raw)) then None
      else if length (split COMMA (strip raw)) < 2 then None
      else map_option (\<lambda>m. \<lparr>date = strip (split COMMA (strip raw) ! 0), minutes = m\<rparr>)
             (float_of (strip (split COMMA (strip raw) ! 1))))"

text \<open>The list of no or one element.\<close>

definition opt_list :: "'a option \<Rightarrow> 'a list" where
  "opt_list x = (case x of None \<Rightarrow> [] | Some y \<Rightarrow> [y])"

text \<open>
  An instance of \<open>float\<close> for concrete rows: the value of a plain run of ASCII digits.
  The built-in accepts more (signs, fractions, exponents, digits of other scripts).
\<close>

definition float_of_digits :: "pystr \<Rightarrow> rat option" where
  "float_of_digits s =
     (if s \<noteq> [] \<and> list_all (\<lambda>c. 48 \<le> c \<and> c \<le> 57) s
      then map_option of_nat (digits_value 0 s) else None)"

section \<open>Persistence\<close>

text \<open>
  The three files of the program. The log and the CSV file hold text; the report file is
  modelled by what determines its text: the time of its generation, the statistics and the
  series. \<open>None\<close> is a file that does not exist. Writes are taken to succeed.
\<close>

record report =
  generated :: pystr
  summary :: stats
  breakdown :: "rat entry list"

record disk =
  thoughts_file :: "pystr option"
  daily_file :: "pystr option"
  report_file :: "report option"

record tracker =
  thoughts :: "thought list"
  dry_run :: bool

definition load_thoughts :: "disk \<Rightarrow> thought list" where
  "load_thoughts d =
     (case thoughts_file d of
        None \<Rightarrow> []
      | Some contents \<Rightarrow> fst (load_lines (readlines contents) []))"

text \<open>The constructor of \<open>OverthinkingTracker\<close>.\<close>

definition tracker_init :: "bool \<Rightarrow> disk \<Rightarrow> tracker" where
  "tracker_init dry d = \<lparr>thoughts = load_thoughts d, dry_run = dry\<rparr>"

definition save_thoughts :: "tracker \<Rightarrow> disk \<Rightarrow> disk" where
  "save_thoughts tr d =
     (if dry_run tr then d
      else d\<lparr>thoughts_file := Some (concat (map write_line (thoughts tr)))\<rparr>)"

definition CATEGORIES :: "(pystr \<times> pystr) list" where
  "CATEGORIES =
     [(ascii ''1'', [128188, 32] @ ascii ''Career/Work''),
      (ascii ''2'', [10084, 65039, 32] @ ascii ''Relationships''),
      (ascii ''3'', [128302, 32] @ ascii ''Future/Uncertainty''),
      (ascii ''4'', [128176, 32] @ ascii ''Money/Finance''),
      (ascii ''5'', [127973, 32] @ ascii ''Health/Body''),
      (ascii ''6'', [128101, 32] @ ascii ''Social/Friends''),
      (ascii ''7'', [127919, 32] @ ascii ''Other'')]"

text \<open>
  \<open>log_overthinking\<close>: the three answers of the user, as typed, and the formatted time
  of the entry.
\<close>

record answers =
  category_answer :: pystr
  intensity_answer :: pystr
  note_answer :: pystr

definition log_overthinking :: "answers \<Rightarrow> pystr \<Rightarrow> tracker \<Rightarrow> disk \<Rightarrow> tracker \<times> disk" where
  "log_overthinking inp stamp tr d =
     (let cat_choice = strip (category_answer inp) in
      if lower cat_choice = ascii ''cancel'' then (tr, d)
      else
        (case map_of CATEGORIES cat_choice of
           None \<Rightarrow> (tr, d)
         | Some label \<Rightarrow>
             (case py_int (strip (intensity_answer inp)) of
                Inl e \<Rightarrow> (tr, d)
              | Inr n \<Rightarrow>
                  if \<not> (1 \<le> n \<and> n \<le> 10) then (tr, d)
                  else
                    (let tr' = tr\<lparr>thoughts := thoughts tr @
                           [\<lparr>timestamp = stamp, category = label, intensity = n,
                             note_text = strip (note_answer inp)\<rparr>]\<rparr>
                     in (tr', save_thoughts tr' d)))))"

definition export_report :: "pystr \<Rightarrow> stats option \<Rightarrow> rat entry list \<Rightarrow> disk \<Rightarrow> disk" where
  "export_report stamp st data d =
     (case st of
        None \<Rightarrow> d
      | Some s \<Rightarrow> d\<lparr>report_file := Some \<lparr>generated = stamp, summary = s, breakdown = data\<rparr>\<rparr>)"

definition analyze_daily_data :: "(pystr \<Rightarrow> rat option) \<Rightarrow> disk \<Rightarrow> py_error + stats option" where
  "analyze_daily_data float_of d =
     (let data = read_daily_data float_of (daily_file d) in
      if data = [] then Inr None else calculate_stats data)"

text \<open>
  One turn of the loop of \<open>main\<close>: the state is the tracker, the statistics and series
  kept for the export, and the files; \<open>None\<close> leaves the loop. What is only printed is not
  part of the state.
\<close>

record session =
  tracker :: tracker
  last_export :: "(stats \<times> rat entry list) option"
  disk :: disk

definition main_step ::
  "(pystr \<Rightarrow> rat option) \<Rightarrow> answers \<Rightarrow> pystr \<Rightarrow> pystr \<Rightarrow> session \<Rightarrow> session option" where
  "main_step float_of inp stamp typed s =
     (let choice = strip typed in
      if choice = ascii ''1'' then
        (case log_overthinking inp stamp (tracker s) (disk s) of
           (tr, d) \<Rightarrow> Some (s\<lparr>tracker := tr, disk := d\<rparr>))
      else if choice = ascii ''2'' then Some s
      else if choice = ascii ''3'' then Some s
      else if choice = ascii ''4'' then
        (case analyze_daily_data float_of (disk s) of
           Inr (Some st) \<Rightarrow>
             Some (s\<lparr>last_export := Some (st, read_daily_data float_of (daily_file (disk s)))\<rparr>)
         | _ \<Rightarrow> Some s)
      else if choice = ascii ''5'' then
        (case last_export s of
           Some (st, data) \<Rightarrow> Some (s\<lparr>disk := export_report stamp (Some st) data (disk s)\<rparr>)
         | None \<Rightarrow> Some s)
      else if choice = ascii ''6'' then Some s
      else if choice = ascii ''7'' then None
      else Some s)"

section \<open>Sample inputs\<close>

definition sample :: thought where
  "sample = \<lparr>timestamp = ascii ''2025-01-15 10:30:00'', category = [127919, 32] @ ascii ''Other'',
     intensity = 7, note_text = ascii ''call mom''\<rparr>"

definition long_line :: pystr where
  "long_line = ascii ''2025-01-15 10:30:00|'' @ [127919, 32] @ ascii ''Other|7|call mom|tomorrow|early'' @ [10]"

definition short_line :: pystr where
  "short_line = ascii ''2025-01-15 10:30:00|'' @ [127919, 32] @ ascii ''Other|7|call mom''"

definition word_line :: pystr where
  "word_line = ascii ''2025-01-15 10:30:00|'' @ [127919, 32] @ ascii ''Other|high|call mom'' @ [10]"

definition big_line :: pystr where
  "big_line = ascii ''2025-01-15 10:30:00|'' @ [127919, 32] @ ascii ''Other|15|call mom'' @ [10]"

definition superscript_line :: pystr where
  "superscript_line = ascii ''2025-01-15 10:30:00|'' @ [127919, 32] @ ascii ''Other|'' @ [178] @ ascii ''|call mom'' @ [10]"

definition one_day :: "rat entry list" where
  "one_day = [\<lparr>date = ascii ''2025-01-15'', minutes = 45\<rparr>]"

definition three_days :: "rat entry list" where
  "three_days = [\<lparr>date = ascii ''2025-01-15'', minutes = 45\<rparr>,
     \<lparr>date = ascii ''2025-01-16'', minutes = 30\<rparr>, \<lparr>date = ascii ''2025-01-17'', minutes = 20\<rparr>]"

definition csv_text :: pystr where
  "csv_text = ascii ''2025-01-14,99'' @ [10] @ ascii ''2025-01-15,45'' @ [10] @
     ascii ''bad,row,x'' @ [13, 10] @ ascii ''Sleep Time,3'' @ [10] @ ascii ''2025-01-16,30'' @ [10]"

definition mixed_log :: "pystr list" where
  "mixed_log =
     [ascii ''2025-01-15 10:30:00|'' @ [127919, 32] @ ascii ''Other|8|call mom'' @ [10],
      ascii ''yesterday|'' @ [127919, 32] @ ascii ''Other|2|shopping'' @ [10]]"

definition mixed_thoughts :: "thought list" where
  "mixed_thoughts =
     [\<lparr>timestamp = ascii ''2025-01-15 10:30:00'', category = [127919, 32] @ ascii ''Other'',
       intensity = 8, note_text = ascii ''call mom''\<rparr>,
      \<lparr>timestamp = ascii ''yesterday'', category = [127919, 32] @ ascii ''Other'',
       intensity = 2, note_text = ascii ''shopping''\<rparr>]"




definition csv_data :: "rat entry list" where
  "csv_data = [\<lparr>date = ascii ''2025-01-15'', minutes = 45\<rparr>,
     \<lparr>date = ascii ''2025-01-16'', minutes = 30\<rparr>]"

definition csv_stats :: stats where
  "csv_stats = \<lparr>days_tracked = 2, avg_minutes = 75 / 2, median_minutes = 75 / 2,
     highest_day = 45, lowest_day = 30, total_hours = 5 / 4, trend = ascii ''improving''\<rparr>"

definition start_disk :: disk where
  "start_disk = \<lparr>thoughts_file = None, daily_file = Some csv_text, report_file = None\<rparr>"

definition dry_start :: session where
  "dry_start = \<lparr>tracker = tracker_init True start_disk, last_export = None, disk = start_disk\<rparr>"

definition dry_analyzed :: session where
  "dry_analyzed = dry_start\<lparr>last_export := Some (csv_stats, csv_data)\<rparr>"

definition sample_answers :: answers where
  "sample_answers = \<lparr>category_answer = ascii '' 7'', intensity_answer = ascii ''8'',
     note_answer = ascii ''call mom ''\<rparr>"

definition stamp0 :: pystr where
  "stamp0 = ascii ''2025-01-22 10:30:00''"

definition dry_logged :: session where
  "dry_logged = dry_start\<lparr>tracker := \<lparr>thoughts =
     [\<lparr>timestamp = stamp0, category = [127919, 32] @ ascii ''Other'', intensity = 8,
       note_text = ascii ''call mom''\<rparr>], dry_run = True\<rparr>\<rparr>"

section \<open>Properties of the string operations\<close>

lemma split_not_Nil: "split sep s \<noteq> []"
  by (induction s) (auto split: list.splits)

lemma split_no_sep: "sep \<notin> set s \<Longrightarrow> split sep s = [s]"
  by (induction s) auto

lemma split_append_sep: "sep \<notin> set a \<Longrightarrow> split sep (a @ sep # b) = a # split sep b"
  by (induction a) auto

lemma length_split: "length (split sep s) = Suc (length (filter (\<lambda>c. c = sep) s))"
  by (induction s) (auto split: list.splits)

lemma not_isspace_PIPE: "\<not> isspace PIPE"
  by (simp add: isspace_def in_ranges_def space_ranges_def PIPE_def)

lemma lstrip_append_nonspace: "\<not> isspace c \<Longrightarrow> lstrip (a @ c # b) = lstrip a @ c # b"
  unfolding lstrip_def by (induction a) auto

lemma rstrip_append_nonspace: "\<not> isspace c \<Longrightarrow> rstrip (a @ c # b) = a @ c # rstrip b"
  unfolding rstrip_def by (simp add: dropWhile_append)

lemma set_lstrip: "set (lstrip s) \<subseteq> set s"
  unfolding lstrip_def by (rule set_dropWhileD[THEN subsetI]) 

lemma set_rstrip: "set (rstrip s) \<subseteq> set s"
  unfolding rstrip_def using set_dropWhileD[of _ isspace "rev s"] by auto

lemma strip_lstrip: "strip (lstrip s) = strip s"
  unfolding strip_def lstrip_def by simp

lemma rstrip_idem: "rstrip (rstrip s) = rstrip s"
  unfolding rstrip_def by simp

lemma lstrip_all_space: "\<forall>c\<in>set s. isspace c \<Longrightarrow> lstrip s = []"
  unfolding lstrip_def by simp

lemma rstrip_all_space: "\<forall>c\<in>set s. isspace c \<Longrightarrow> rstrip s = []"
  unfolding rstrip_def by simp

lemma rstrip_lstrip_commute: "rstrip (lstrip s) = lstrip (rstrip s)"
proof (cases "\<forall>c\<in>set s. isspace c")
  case True
  then have "lstrip s = []" "rstrip s = []"
    by (simp_all add: lstrip_all_space rstrip_all_space)
  then show ?thesis by (simp add: lstrip_def [of "[]"] rstrip_def [of "[]"])
next
  case False
  then obtain a c b where s: "s = a @ c # b" and c: "\<not> isspace c"
    by (meson split_list)
  show ?thesis
    by (simp add: s lstrip_append_nonspace [OF c] rstrip_append_nonspace [OF c])
qed

lemma strip_rstrip: "strip (rstrip s) = strip s"
  by (simp add: strip_def rstrip_lstrip_commute [symmetric] rstrip_idem)

lemma strip_idem: "strip (strip s) = strip s"
  by (simp add: strip_def[of "lstrip s"] strip_def[of s] rstrip_lstrip_commute rstrip_idem strip_lstrip strip_rstrip)

lemma rstrip_snoc_space: "isspace c \<Longrightarrow> rstrip (s @ [c]) = rstrip s"
  unfolding rstrip_def by simp

lemma strip_snoc_space: "isspace c \<Longrightarrow> strip (s @ [c]) = strip s"
  by (simp add: strip_def rstrip_lstrip_commute rstrip_snoc_space)

lemma load_line_four:
  assumes "PIPE \<notin> set f0" "PIPE \<notin> set f1" "PIPE \<notin> set f2" "PIPE \<notin> set f3"
  shows "load_line (f0 @ PIPE # f1 @ PIPE # f2 @ PIPE # f3) = fields_result f0 f1 f2 f3"
proof -
  let ?line = "f0 @ PIPE # f1 @ PIPE # f2 @ PIPE # f3"
  have l: "lstrip ?line = lstrip f0 @ PIPE # f1 @ PIPE # f2 @ PIPE # f3"
    by (rule lstrip_append_nonspace [OF not_isspace_PIPE])
  have "rstrip ((lstrip f0 @ PIPE # f1 @ PIPE # f2) @ PIPE # f3)
        = (lstrip f0 @ PIPE # f1 @ PIPE # f2) @ PIPE # rstrip f3"
    by (rule rstrip_append_nonspace [OF not_isspace_PIPE])
  with l have s: "strip ?line = lstrip f0 @ PIPE # f1 @ PIPE # f2 @ PIPE # rstrip f3"
    by (simp add: strip_def)
  have p0: "PIPE \<notin> set (lstrip f0)" and p3: "PIPE \<notin> set (rstrip f3)"
    using assms set_lstrip [of f0] set_rstrip [of f3] by auto
  have parts: "split PIPE (strip ?line) = [lstrip f0, f1, f2, rstrip f3]"
    by (simp add: s split_append_sep p0 assms split_no_sep p3)
  show ?thesis
    unfolding load_line_def Let_def parts fields_result_def
    by (simp add: s strip_lstrip strip_rstrip split: sum.splits)
qed

lemma load_line_more:
  assumes "PIPE \<notin> set f0" "PIPE \<notin> set f1" "PIPE \<notin> set f2" "PIPE \<notin> set f3"
  shows "load_line (f0 @ PIPE # f1 @ PIPE # f2 @ PIPE # f3 @ PIPE # r) = fields_result f0 f1 f2 f3"
proof -
  let ?line = "f0 @ PIPE # f1 @ PIPE # f2 @ PIPE # f3 @ PIPE # r"
  have l: "lstrip ?line = lstrip f0 @ PIPE # f1 @ PIPE # f2 @ PIPE # f3 @ PIPE # r"
    by (rule lstrip_append_nonspace [OF not_isspace_PIPE])
  have "rstrip ((lstrip f0 @ PIPE # f1 @ PIPE # f2 @ PIPE # f3) @ PIPE # r)
        = (lstrip f0 @ PIPE # f1 @ PIPE # f2 @ PIPE # f3) @ PIPE # rstrip r"
    by (rule rstrip_append_nonspace [OF not_isspace_PIPE])
  with l have s: "strip ?line = lstrip f0 @ PIPE # f1 @ PIPE # f2 @ PIPE # f3 @ PIPE # rstrip r"
    by (simp add: strip_def)
  have p0: "PIPE \<notin> set (lstrip f0)"
    using assms set_lstrip [of f0] by auto
  have parts: "split PIPE (strip ?line) = lstrip f0 # f1 # f2 # f3 # split PIPE (rstrip r)"
    by (simp add: s split_append_sep p0 assms)
  show ?thesis
    unfolding load_line_def Let_def parts fields_result_def
    by (simp add: s strip_lstrip split: sum.splits)
qed

section \<open>Properties of digits and integers\<close>

lemma decimal_char_bounds: "is_decimal_char c \<Longrightarrow> 48 \<le> c \<and> (c \<le> 57 \<or> 1632 \<le> c)"
  unfolding is_decimal_char_def in_ranges_def decimal_ranges_def by simp linarith

lemma digit_only_bounds: "in_ranges digit_only_ranges c \<Longrightarrow> 178 \<le> c"
  unfolding in_ranges_def digit_only_ranges_def by simp linarith

lemma digit_not_space: "is_digit_char c \<Longrightarrow> \<not> isspace c"
  unfolding is_digit_char_def is_decimal_char_def isspace_def in_ranges_def decimal_ranges_def
    digit_only_ranges_def space_ranges_def
  by simp linarith

lemma int_space_isspace: "int_space c \<Longrightarrow> isspace c"
  unfolding int_space_def isspace_def in_ranges_def space_ranges_def by auto

lemma digit_char_plain: "is_digit_char c \<Longrightarrow> c \<noteq> 43 \<and> c \<noteq> 45 \<and> c \<noteq> 95 \<and> \<not> int_space c"
  using decimal_char_bounds [of c] digit_only_bounds [of c] digit_not_space [of c]
    int_space_isspace [of c]
  by (auto simp: is_digit_char_def)

lemma find_None_list_ex: "find P xs = None \<longleftrightarrow> \<not> list_ex P xs"
  by (induction xs) auto

lemma decimal_value_None: "decimal_value c = None \<longleftrightarrow> \<not> is_decimal_char c"
  unfolding decimal_value_def is_decimal_char_def in_ranges_def
  by (simp add: find_None_list_ex [symmetric] split: option.splits)

lemma decimal_value_ascii: "48 \<le> c \<Longrightarrow> c \<le> 57 \<Longrightarrow> decimal_value c = Some (c - 48)"
  unfolding decimal_value_def decimal_ranges_def by simp

lemma digits_value_append:
  "digits_value acc (xs @ ys) =
     (case digits_value acc xs of None \<Rightarrow> None | Some a \<Rightarrow> digits_value a ys)"
  by (induction xs arbitrary: acc) (auto split: option.splits)

lemma digits_value_decimal: "list_all is_decimal_char s \<Longrightarrow> \<exists>n. digits_value acc s = Some n"
proof (induction s arbitrary: acc)
  case Nil
  then show ?case by simp
next
  case (Cons c s)
  then obtain d where "decimal_value c = Some d"
    using decimal_value_None [of c] by auto
  with Cons show ?case by simp
qed

lemma digits_value_not_decimal: "\<not> list_all is_decimal_char s \<Longrightarrow> digits_value acc s = None"
proof (induction s arbitrary: acc)
  case Nil
  then show ?case by simp
next
  case (Cons c s)
  show ?case
  proof (cases "decimal_value c")
    case None
    then show ?thesis by simp
  next
    case (Some d)
    then have "is_decimal_char c"
      using decimal_value_None [of c] by auto
    with Cons Some show ?thesis by simp
  qed
qed

lemma drop_underscores_plain: "95 \<notin> set s \<Longrightarrow> drop_underscores s = Some s"
  by (induction s rule: drop_underscores.induct) auto

lemma dropWhile_hd_id: "s \<noteq> [] \<Longrightarrow> \<not> P (hd s) \<Longrightarrow> dropWhile P s = s"
  by (cases s) auto

lemma py_int_isdigit:
  assumes "isdigit s"
  shows "py_int s =
           (if list_all is_decimal_char s \<and> length s \<le> max_str_digits
            then Inr (int (the (digits_value 0 s))) else Inl ValueError)"
proof -
  from assms have ne: "s \<noteq> []" and all: "\<forall>c\<in>set s. is_digit_char c"
    by (auto simp: isdigit_def list_all_iff)
  have hd: "is_digit_char (hd s)" and last: "is_digit_char (last s)"
    using ne all by auto
  have 1: "dropWhile int_space s = s"
    using ne hd digit_char_plain by (simp add: dropWhile_hd_id)
  have 2: "dropWhile int_space (rev s) = rev s"
    using ne last digit_char_plain by (simp add: dropWhile_hd_id hd_rev)
  have 3: "hd s \<noteq> 45" "hd s \<noteq> 43"
    using hd digit_char_plain by auto
  have "95 \<notin> set s"
    using all digit_char_plain by auto
  then have 4: "drop_underscores s = Some s"
    by (rule drop_underscores_plain)
  show ?thesis
  proof (cases "list_all is_decimal_char s")
    case True
    then obtain n where "digits_value 0 s = Some n"
      using digits_value_decimal by blast
    with True show ?thesis
      by (simp add: py_int_def 1 2 3 4 ne)
  next
    case False
    then show ?thesis
      by (simp add: py_int_def 1 2 3 4 ne digits_value_not_decimal)
  qed
qed

declare nat_digits.simps [simp del]

lemma nat_digits_ascii: "c \<in> set (nat_digits n) \<Longrightarrow> 48 \<le> c \<and> c \<le> 57"
proof (induction n arbitrary: c rule: nat_digits.induct)
  case (1 n)
  then show ?case
    by (subst (asm) nat_digits.simps) (auto split: if_splits)
qed

lemma nat_digits_not_Nil: "nat_digits n \<noteq> []"
  by (subst nat_digits.simps) simp

lemma digits_value_nat_digits: "digits_value 0 (nat_digits n) = Some n"
proof (induction n rule: nat_digits.induct)
  case (1 n)
  show ?case
  proof (cases "n < 10")
    case True
    then show ?thesis
      by (subst nat_digits.simps) (simp add: decimal_value_ascii)
  next
    case False
    with 1 show ?thesis
      by (subst nat_digits.simps) (simp add: digits_value_append decimal_value_ascii)
  qed
qed


lemma ascii_digit_decimal: "48 \<le> c \<Longrightarrow> c \<le> 57 \<Longrightarrow> is_decimal_char c"
  unfolding is_decimal_char_def in_ranges_def decimal_ranges_def by simp

lemma nat_digits_decimal: "list_all is_decimal_char (nat_digits n)"
  using nat_digits_ascii ascii_digit_decimal by (auto simp: list_all_iff)

lemma isdigit_nat_digits: "isdigit (nat_digits n)"
  using nat_digits_decimal [of n]
  by (auto simp: isdigit_def nat_digits_not_Nil is_digit_char_def list_all_iff)

lemma strip_no_space: "\<forall>c\<in>set s. \<not> isspace c \<Longrightarrow> strip s = s"
proof (cases s rule: rev_cases)
  case Nil
  then show ?thesis by (simp add: strip_def lstrip_def rstrip_def)
next
  case (snoc ys y)
  assume a: "\<forall>c\<in>set s. \<not> isspace c"
  from snoc have "s \<noteq> []" by simp
  then have "hd s \<in> set s" by simp
  with a snoc have "\<not> isspace (hd s)" "\<not> isspace y" "s \<noteq> []"
    by auto
  then have "lstrip s = s"
    by (simp add: lstrip_def dropWhile_hd_id)
  moreover have "rstrip s = s"
    using \<open>\<not> isspace y\<close> snoc by (simp add: rstrip_def)
  ultimately show ?thesis by (simp add: strip_def)
qed

lemma strip_nat_digits: "strip (nat_digits n) = nat_digits n"
  using nat_digits_decimal [of n] digit_not_space
  by (intro strip_no_space) (auto simp: list_all_iff is_digit_char_def)

lemma PIPE_notin_nat_digits: "PIPE \<notin> set (nat_digits n)"
  using nat_digits_ascii [of PIPE n] by (auto simp: PIPE_def)

lemma py_int_nat_digits:
  "length (nat_digits n) \<le> max_str_digits \<Longrightarrow> py_int (nat_digits n) = Inr (int n)"
  by (simp add: py_int_isdigit isdigit_nat_digits nat_digits_decimal digits_value_nat_digits)

section \<open>Reading and writing the episode log\<close>

lemmas str_eval = ascii_def strip_def lstrip_def rstrip_def isspace_def in_ranges_def
  space_ranges_def PIPE_def

lemma split_has_sep: "2 \<le> length (split sep s) \<Longrightarrow> sep \<in> set s"
  using split_no_sep [of sep s] by fastforce

lemma load_line_parts:
  assumes "4 \<le> length (split PIPE (strip raw))"
  shows "load_line raw =
           fields_result (split PIPE (strip raw) ! 0) (split PIPE (strip raw) ! 1)
             (split PIPE (strip raw) ! 2) (split PIPE (strip raw) ! 3)"
proof -
  from assms have "PIPE \<in> set (strip raw)"
    by (intro split_has_sep) simp
  moreover then have "strip raw \<noteq> []" by auto
  ultimately show ?thesis
    using assms
    by (simp add: load_line_def fields_result_def Let_def strip_idem split: sum.splits)
qed

lemma load_line_short:
  "length (split PIPE (strip raw)) < 4 \<Longrightarrow> load_line raw = Inr None"
  by (simp add: load_line_def Let_def)

lemma extra_fields_aux:
  assumes "4 < length (split PIPE (strip raw))"
  shows "(\<forall>t. load_line raw = Inr (Some t) \<longrightarrow>
            timestamp t = strip (split PIPE (strip raw) ! 0) \<and>
            category t = strip (split PIPE (strip raw) ! 1) \<and>
            note_text t = strip (split PIPE (strip raw) ! 3)) \<and>
         (\<forall>raw'. take 4 (split PIPE (strip raw')) = take 4 (split PIPE (strip raw)) \<longrightarrow>
            load_line raw' = load_line raw)"
proof (intro conjI allI impI)
  fix t assume "load_line raw = Inr (Some t)"
  then have t: "fields_result (split PIPE (strip raw) ! 0) (split PIPE (strip raw) ! 1)
             (split PIPE (strip raw) ! 2) (split PIPE (strip raw) ! 3) = Inr (Some t)"
    using assms by (simp add: load_line_parts)
  from t show "timestamp t = strip (split PIPE (strip raw) ! 0)"
    by (auto simp: fields_result_def split: sum.splits if_splits)
  from t show "category t = strip (split PIPE (strip raw) ! 1)"
    by (auto simp: fields_result_def split: sum.splits if_splits)
  from t show "note_text t = strip (split PIPE (strip raw) ! 3)"
    by (auto simp: fields_result_def split: sum.splits if_splits)
next
  fix raw' assume eq: "take 4 (split PIPE (strip raw')) = take 4 (split PIPE (strip raw))"
  let ?p = "split PIPE (strip raw)" and ?q = "split PIPE (strip raw')"
  from assms have "length (take 4 ?p) = 4" by simp
  with eq have len: "4 \<le> length ?q"
    by (metis length_take min.cobounded1)
  have "\<And>i. i < 4 \<Longrightarrow> ?q ! i = ?p ! i"
    using eq by (metis nth_take)
  then have "?q ! 0 = ?p ! 0" "?q ! 1 = ?p ! 1" "?q ! 2 = ?p ! 2" "?q ! 3 = ?p ! 3"
    by simp_all
  then show "load_line raw' = load_line raw"
    using assms len by (simp add: load_line_parts)
qed

lemma isspace_newline: "isspace 10"
  by (simp add: isspace_def in_ranges_def space_ranges_def)


lemma fields_result_written:
  assumes "0 \<le> i" "length (py_str_int i) \<le> max_str_digits"
  shows "fields_result f0 f1 (py_str_int i) f3 =
           Inr (Some \<lparr>timestamp = strip f0, category = strip f1, intensity = i,
                      note_text = strip f3\<rparr>)"
  using assms
  by (simp add: fields_result_def py_str_int_def strip_nat_digits isdigit_nat_digits
      py_int_nat_digits)

lemma PIPE_notin_py_str_int: "0 \<le> i \<Longrightarrow> PIPE \<notin> set (py_str_int i)"
  by (simp add: py_str_int_def PIPE_notin_nat_digits)


lemma load_written_split_note:
  assumes "PIPE \<notin> set (timestamp e)" "PIPE \<notin> set (category e)"
    and "note_text e = a @ PIPE # b" "PIPE \<notin> set a"
    and "0 \<le> intensity e" "length (py_str_int (intensity e)) \<le> max_str_digits"
  shows "load_line (write_line e) =
           Inr (Some \<lparr>timestamp = strip (timestamp e), category = strip (category e),
                      intensity = intensity e, note_text = strip a\<rparr>)"
proof -
  have "write_line e = timestamp e @ PIPE # category e @ PIPE # py_str_int (intensity e) @ PIPE #
     a @ PIPE # (b @ [10])"
    by (simp add: write_line_def assms(3))
  then have "load_line (write_line e) =
      fields_result (timestamp e) (category e) (py_str_int (intensity e)) a"
    using assms by (simp add: load_line_more PIPE_notin_py_str_int)
  then show ?thesis
    using assms by (simp add: fields_result_written)
qed



text \<open>
  Claim C2, as amended. On a line of at least four fields, a trimmed intensity field that
  is empty or holds a character that is not a digit gives the intensity 5; a field of at
  most 4300 decimal digits gives its number, inside the range from 1 to 10 or not. In both
  cases the episode is appended and the loop goes on with the next line.
\<close>

theorem intensity_field_policy:
  assumes "4 \<le> length (split PIPE (strip raw))"
  shows "(\<not> isdigit (strip (split PIPE (strip raw) ! 2)) \<longrightarrow>
           (\<exists>t. load_line raw = Inr (Some t) \<and> intensity t = 5 \<and>
                (\<forall>ls acc. load_lines (raw # ls) acc = load_lines ls (acc @ [t])))) \<and>
         (strip (split PIPE (strip raw) ! 2) \<noteq> [] \<and>
          list_all is_decimal_char (strip (split PIPE (strip raw) ! 2)) \<and>
          length (strip (split PIPE (strip raw) ! 2)) \<le> max_str_digits \<longrightarrow>
           (\<exists>t n. load_line raw = Inr (Some t) \<and>
                digits_value 0 (strip (split PIPE (strip raw) ! 2)) = Some n \<and>
                intensity t = int n \<and>
                (\<forall>ls acc. load_lines (raw # ls) acc = load_lines ls (acc @ [t]))))"
proof (intro conjI impI)
  let ?f = "strip (split PIPE (strip raw) ! 2)"
  assume "\<not> isdigit ?f"
  then obtain t where t: "load_line raw = Inr (Some t)" "intensity t = 5"
    using assms by (simp add: load_line_parts fields_result_def strip_idem)
  then show "\<exists>t. load_line raw = Inr (Some t) \<and> intensity t = 5 \<and>
      (\<forall>ls acc. load_lines (raw # ls) acc = load_lines ls (acc @ [t]))"
    by simp
next
  let ?f = "strip (split PIPE (strip raw) ! 2)"
  assume a: "?f \<noteq> [] \<and> list_all is_decimal_char ?f \<and> length ?f \<le> max_str_digits"
  then have d: "isdigit ?f"
    by (auto simp: isdigit_def is_digit_char_def list_all_iff)
  from a obtain n where n: "digits_value 0 ?f = Some n"
    using digits_value_decimal by blast
  with a d have "py_int ?f = Inr (int n)"
    by (simp add: py_int_isdigit)
  with d obtain t where t: "load_line raw = Inr (Some t)" "intensity t = int n"
    using assms by (simp add: load_line_parts fields_result_def strip_idem)
  with n show "\<exists>t n. load_line raw = Inr (Some t) \<and> digits_value 0 ?f = Some n \<and>
      intensity t = int n \<and> (\<forall>ls acc. load_lines (raw # ls) acc = load_lines ls (acc @ [t]))"
    by simp
qed

text \<open>
  Claim C10. On a line of more than four fields the episode is made of the first four
  alone: its note is the trimmed field of index 3, and any line with the same first four
  fields gives the same result. So an episode whose note holds a delimiter is read back
  with the note cut before the first delimiter.
\<close>

theorem extra_fields_dropped:
  "(4 < length (split PIPE (strip raw)) \<longrightarrow>
      (\<forall>t. load_line raw = Inr (Some t) \<longrightarrow>
         timestamp t = strip (split PIPE (strip raw) ! 0) \<and>
         category t = strip (split PIPE (strip raw) ! 1) \<and>
         note_text t = strip (split PIPE (strip raw) ! 3)) \<and>
      (\<forall>raw'. take 4 (split PIPE (strip raw')) = take 4 (split PIPE (strip raw)) \<longrightarrow>
         load_line raw' = load_line raw)) \<and>
   (PIPE \<notin> set (timestamp e) \<and> PIPE \<notin> set (category e) \<and>
    note_text e = a @ PIPE # b \<and> PIPE \<notin> set a \<and>
    0 \<le> intensity e \<and> length (py_str_int (intensity e)) \<le> max_str_digits \<longrightarrow>
      load_line (write_line e) =
        Inr (Some \<lparr>timestamp = strip (timestamp e), category = strip (category e),
                   intensity = intensity e, note_text = strip a\<rparr>))"
proof (rule conjI; rule impI)
  assume "4 < length (split PIPE (strip raw))"
  then show "(\<forall>t. load_line raw = Inr (Some t) \<longrightarrow>
         timestamp t = strip (split PIPE (strip raw) ! 0) \<and>
         category t = strip (split PIPE (strip raw) ! 1) \<and>
         note_text t = strip (split PIPE (strip raw) ! 3)) \<and>
      (\<forall>raw'. take 4 (split PIPE (strip raw')) = take 4 (split PIPE (strip raw)) \<longrightarrow>
         load_line raw' = load_line raw)"
    by (rule extra_fields_aux)
next
  assume "PIPE \<notin> set (timestamp e) \<and> PIPE \<notin> set (category e) \<and>
    note_text e = a @ PIPE # b \<and> PIPE \<notin> set a \<and>
    0 \<le> intensity e \<and> length (py_str_int (intensity e)) \<le> max_str_digits"
  then show "load_line (write_line e) =
        Inr (Some \<lparr>timestamp = strip (timestamp e), category = strip (category e),
                   intensity = intensity e, note_text = strip a\<rparr>)"
    by (intro load_written_split_note) simp_all
qed

lemma long_line_parts:
  "split PIPE (strip long_line) =
     [ascii ''2025-01-15 10:30:00'', [127919, 32] @ ascii ''Other'', ascii ''7'',
      ascii ''call mom'', ascii ''tomorrow'', ascii ''early'']"
  by (simp add: long_line_def str_eval)

lemma short_line_parts:
  "split PIPE (strip short_line) =
     [ascii ''2025-01-15 10:30:00'', [127919, 32] @ ascii ''Other'', ascii ''7'',
      ascii ''call mom'']"
  by (simp add: short_line_def str_eval)

text \<open>A line of six fields, and an episode whose note holds a delimiter.\<close>

theorem extra_fields_dropped_witness:
  "4 < length (split PIPE (strip long_line)) \<and>
   load_line short_line = load_line long_line \<and>
   load_line (write_line (sample\<lparr>note_text := ascii ''call mom|tomorrow''\<rparr>)) = Inr (Some sample)"
proof -
  let ?e = "sample\<lparr>note_text := ascii ''call mom|tomorrow''\<rparr>"
  have 1: "4 < length (split PIPE (strip long_line))"
    by (simp add: long_line_parts)
  have 2: "take 4 (split PIPE (strip short_line)) = take 4 (split PIPE (strip long_line))"
    by (simp add: long_line_parts short_line_parts)
  have 3: "PIPE \<notin> set (timestamp ?e) \<and> PIPE \<notin> set (category ?e) \<and>
    note_text ?e = ascii ''call mom'' @ PIPE # ascii ''tomorrow'' \<and> PIPE \<notin> set (ascii ''call mom'') \<and>
    0 \<le> intensity ?e \<and> length (py_str_int (intensity ?e)) \<le> max_str_digits"
    by (simp add: sample_def ascii_def PIPE_def py_str_int_def nat_digits.simps max_str_digits_def)
  have 4: "\<lparr>timestamp = strip (timestamp ?e), category = strip (category ?e),
       intensity = intensity ?e, note_text = strip (ascii ''call mom'')\<rparr> = sample"
    by (simp add: sample_def str_eval)
  note inst = extra_fields_dropped [of long_line ?e "ascii ''call mom''" "ascii ''tomorrow''"]
  from inst 1 2 have 5: "load_line short_line = load_line long_line"
    by blast
  from inst 3 have "load_line (write_line ?e) =
    Inr (Some \<lparr>timestamp = strip (timestamp ?e), category = strip (category ?e),
       intensity = intensity ?e, note_text = strip (ascii ''call mom'')\<rparr>)"
    by blast
  with 4 have 6: "load_line (write_line ?e) = Inr (Some sample)"
    by simp
  from 1 5 6 show ?thesis by blast
qed

lemmas digit_eval = isdigit_def is_digit_char_def is_decimal_char_def in_ranges_def
  decimal_ranges_def digit_only_ranges_def

lemmas int_eval = py_int_def int_space_def isspace_def in_ranges_def space_ranges_def
  decimal_value_def decimal_ranges_def max_str_digits_def

lemma word_line_parts:
  "split PIPE (strip word_line) =
     [ascii ''2025-01-15 10:30:00'', [127919, 32] @ ascii ''Other'', ascii ''high'',
      ascii ''call mom'']"
  by (simp add: word_line_def str_eval)

lemma big_line_parts:
  "split PIPE (strip big_line) =
     [ascii ''2025-01-15 10:30:00'', [127919, 32] @ ascii ''Other'', ascii ''15'',
      ascii ''call mom'']"
  by (simp add: big_line_def str_eval)

lemma superscript_line_parts:
  "split PIPE (strip superscript_line) =
     [ascii ''2025-01-15 10:30:00'', [127919, 32] @ ascii ''Other'', [178],
      ascii ''call mom'']"
  by (simp add: superscript_line_def str_eval)

lemma strip_high: "strip (ascii ''high'') = ascii ''high''"
  by (simp add: str_eval)

lemma strip_15: "strip (ascii ''15'') = ascii ''15''"
  by (simp add: str_eval)

lemma not_isdigit_high: "\<not> isdigit (ascii ''high'')"
  by (simp add: ascii_def digit_eval)

lemma decimal_15: "list_all is_decimal_char (ascii ''15'')"
  by (simp add: ascii_def digit_eval)

lemma value_15: "digits_value 0 (ascii ''15'') = Some 15"
  by (simp add: ascii_def decimal_value_def decimal_ranges_def)

text \<open>The two cases at a line with the field \<open>high\<close> and at one with the field \<open>15\<close>.\<close>

theorem intensity_field_policy_witness:
  "(\<exists>t. load_line word_line = Inr (Some t) \<and> intensity t = 5) \<and>
   (\<exists>t. load_line big_line = Inr (Some t) \<and> intensity t = 15)"
proof
  have "4 \<le> length (split PIPE (strip word_line))"
    by (simp add: word_line_parts)
  moreover have "\<not> isdigit (strip (split PIPE (strip word_line) ! 2))"
    by (simp add: word_line_parts strip_high not_isdigit_high)
  ultimately show "\<exists>t. load_line word_line = Inr (Some t) \<and> intensity t = 5"
    using intensity_field_policy [of word_line] by blast
next
  have "4 \<le> length (split PIPE (strip big_line))"
    by (simp add: big_line_parts)
  moreover have f: "strip (split PIPE (strip big_line) ! 2) = ascii ''15''"
    by (simp add: big_line_parts strip_15)
  moreover have "ascii ''15'' \<noteq> [] \<and> list_all is_decimal_char (ascii ''15'') \<and>
      length (ascii ''15'') \<le> max_str_digits"
    by (simp add: decimal_15) (simp add: ascii_def max_str_digits_def)
  ultimately have "\<exists>t n. load_line big_line = Inr (Some t) \<and>
     digits_value 0 (ascii ''15'') = Some n \<and> intensity t = int n"
    using intensity_field_policy [of big_line] by (simp only: f) blast
  then show "\<exists>t. load_line big_line = Inr (Some t) \<and> intensity t = 15"
    by (auto simp: value_15)
qed

text \<open>
  Claim C2 as stated fails: the field \<open>15\<close> is numeric and outside the range, and the
  episode keeps the intensity 15, not 5.
\<close>

theorem out_of_range_intensity_counterexample:
  "4 \<le> length (split PIPE (strip big_line)) \<and>
   strip (split PIPE (strip big_line) ! 2) = ascii ''15'' \<and>
   load_line big_line =
     Inr (Some \<lparr>timestamp = ascii ''2025-01-15 10:30:00'', category = [127919, 32] @ ascii ''Other'',
                intensity = 15, note_text = ascii ''call mom''\<rparr>)"
proof -
  have "isdigit (ascii ''15'')"
    by (simp add: ascii_def digit_eval)
  moreover have "py_int (ascii ''15'') = Inr 15"
    by (simp add: ascii_def int_eval)
  ultimately show ?thesis
    by (simp add: load_line_parts big_line_parts fields_result_def strip_15) (simp add: str_eval)
qed

text \<open>
  A digit without decimal value, such as the superscript two, passes \<open>isdigit\<close> and makes
  \<open>int\<close> raise: the exception leaves the loop, and the lines after it are not read.
\<close>

lemma superscript_digit_aborts:
  "load_line superscript_line = Inl ValueError \<and>
   load_lines (superscript_line # ls) acc = (acc, Some ValueError)"
proof -
  have "strip [178] = [178::nat]"
    by (simp add: str_eval)
  moreover have "isdigit [178]"
    by (simp add: digit_eval)
  moreover have "py_int [178] = Inl ValueError"
    by (simp add: int_eval)
  ultimately have "load_line superscript_line = Inl ValueError"
    by (simp add: load_line_parts superscript_line_parts fields_result_def)
  then show ?thesis by simp
qed

section \<open>Statistics of the daily series\<close>

lemma py_index_nat: "i < length xs \<Longrightarrow> py_index xs (int i) = Inr (xs ! i)"
  by (simp add: py_index_def)

lemma calculate_median_nonempty:
  assumes "values \<noteq> []"
  shows "calculate_median values =
           Inr (if even (length values)
                then (sort values ! (length values div 2 - 1) + sort values ! (length values div 2)) / 2
                else sort values ! (length values div 2))"
proof -
  let ?n = "length values"
  from assms have n: "0 < ?n" by simp
  show ?thesis
  proof (cases "even ?n")
    case True
    with n have m: "1 \<le> ?n div 2" "?n div 2 < ?n"
      by presburger+
    then have "int (?n div 2) - 1 = int (?n div 2 - 1)" by simp
    moreover have "?n div 2 - 1 < length (sort values)"
      using m by simp
    ultimately have "py_index (sort values) (int (?n div 2) - 1) = Inr (sort values ! (?n div 2 - 1))"
      by (simp only: py_index_nat)
    moreover have "py_index (sort values) (int (?n div 2)) = Inr (sort values ! (?n div 2))"
      using m by (simp add: py_index_nat)
    ultimately show ?thesis
      using True by (simp add: calculate_median_def Let_def even_iff_mod_2_eq_zero)
  next
    case False
    have "?n div 2 < ?n" using n by simp
    then have "py_index (sort values) (int (?n div 2)) = Inr (sort values ! (?n div 2))"
      by (simp add: py_index_nat)
    with False show ?thesis
      by (simp add: calculate_median_def Let_def even_iff_mod_2_eq_zero)
  qed
qed



lemma calculate_trend_halves:
  assumes "2 \<le> length xs"
  shows "calculate_trend xs =
     (if mean (drop (length xs div 2) xs) < 9 / 10 * mean (take (length xs div 2) xs)
      then ascii ''improving''
      else if 11 / 10 * mean (take (length xs div 2) xs) < mean (drop (length xs div 2) xs)
      then ascii ''increasing''
      else ascii ''stable'')"
proof -
  from assms have h: "0 < length xs div 2" "length xs div 2 < length xs"
    by auto
  then have "min (length xs) (length xs div 2) = length xs div 2"
    by simp
  with assms h show ?thesis
    by (simp add: calculate_trend_def Let_def mean_def mult.commute)
qed




lemma py_max_nonempty: "xs \<noteq> [] \<Longrightarrow> \<exists>m. py_max xs = Inr m"
  by (cases xs) (simp_all add: py_max_def)

lemma py_min_nonempty: "xs \<noteq> [] \<Longrightarrow> \<exists>m. py_min xs = Inr m"
  by (cases xs) (simp_all add: py_min_def)

lemma calculate_stats_nonempty:
  assumes "data \<noteq> []"
  shows "\<exists>st. calculate_stats data = Inr (Some st) \<and> trend st = calculate_trend (map minutes data) \<and>
     days_tracked st = length data"
proof -
  let ?m = "map minutes data"
  from assms have ne: "?m \<noteq> []" by simp
  obtain med where "calculate_median ?m = Inr med"
    using calculate_median_nonempty [OF ne] by blast
  moreover obtain hi where "py_max ?m = Inr hi"
    using py_max_nonempty [OF ne] by blast
  moreover obtain lo where "py_min ?m = Inr lo"
    using py_min_nonempty [OF ne] by blast
  ultimately show ?thesis
    using assms by (simp add: calculate_stats_def Let_def)
qed

text \<open>
  Claim C8, as amended. The statistics of a series that is not empty exist; their trend
  is \<open>neutral\<close> for a series of one entry and one of \<open>improving\<close>, \<open>increasing\<close>,
  \<open>stable\<close> for a series of two entries or more.
\<close>

theorem trend_values:
  assumes "data \<noteq> []"
  shows "\<exists>st. calculate_stats data = Inr (Some st) \<and>
           (length data = 1 \<longrightarrow> trend st = ascii ''neutral'') \<and>
           (2 \<le> length data \<longrightarrow>
              trend st \<in> {ascii ''improving'', ascii ''increasing'', ascii ''stable''})"
proof -
  obtain st where st: "calculate_stats data = Inr (Some st)"
      "trend st = calculate_trend (map minutes data)"
    using calculate_stats_nonempty [OF assms] by blast
  have "length data = 1 \<longrightarrow> trend st = ascii ''neutral''"
    by (simp add: st calculate_trend_def)
  moreover have "2 \<le> length data \<longrightarrow>
      trend st \<in> {ascii ''improving'', ascii ''increasing'', ascii ''stable''}"
    by (simp add: st calculate_trend_def Let_def)
  ultimately show ?thesis using st by blast
qed

text \<open>
  The statistics of three days.
\<close>

theorem trend_values_witness:
  "\<exists>st. calculate_stats three_days = Inr (Some st) \<and>
      trend st \<in> {ascii ''improving'', ascii ''increasing'', ascii ''stable''}"
proof -
  have "three_days \<noteq> []" by (simp add: three_days_def)
  from trend_values [OF this] show ?thesis
    by (auto simp: three_days_def)
qed

text \<open>
  Claim C8 as stated fails: a series of one day has the trend \<open>neutral\<close>, which is
  none of the three names.
\<close>

theorem single_day_trend_counterexample:
  "one_day \<noteq> [] \<and>
   map_sum id (map_option trend) (calculate_stats one_day) = Inr (Some (ascii ''neutral'')) \<and>
   ascii ''neutral'' \<notin> {ascii ''improving'', ascii ''increasing'', ascii ''stable''}"
proof -
  have ne: "one_day \<noteq> []" by (simp add: one_day_def)
  from calculate_stats_nonempty [OF ne]
  obtain st where "calculate_stats one_day = Inr (Some st)"
    "trend st = calculate_trend (map minutes one_day)"
    by blast
  then have "map_sum id (map_option trend) (calculate_stats one_day) = Inr (Some (ascii ''neutral''))"
    by (simp add: one_day_def calculate_trend_def)
  moreover have "ascii ''neutral'' \<notin> {ascii ''improving'', ascii ''increasing'', ascii ''stable''}"
    by (simp add: ascii_def)
  ultimately show ?thesis using ne by blast
qed

section \<open>Reading the daily CSV file: properties\<close>

lemma read_rows_fold:
  "read_rows f k ls (data, out) =
     (data @ concat (map (\<lambda>(i, raw). opt_list (fst (row_step f i raw))) (enumerate k ls)),
      out @ concat (map (\<lambda>(i, raw). opt_list (snd (row_step f i raw))) (enumerate k ls)))"
  by (induction ls arbitrary: k data out) (auto simp: opt_list_def split: prod.splits)

lemma row_step_later: "k \<noteq> 1 \<Longrightarrow> fst (row_step f k raw) = row_entry f raw"
  by (auto simp: row_step_def row_entry_def Let_def list_ex_iff split: option.splits)

lemma row_step_first: "fst (row_step f (Suc 0) raw) = None"
  by (simp add: row_step_def Let_def)

lemma later_rows:
  "0 < k \<Longrightarrow> concat (map (\<lambda>(i, raw). opt_list (fst (row_step f i raw))) (enumerate (Suc k) ls))
     = List.map_filter (row_entry f) ls"
  by (induction ls arbitrary: k) (auto simp: row_step_later opt_list_def split: option.splits)

lemma read_rows_data:
  "fst (read_rows f 1 (first # rest) ([], [])) = List.map_filter (row_entry f) rest"
  using later_rows [of 1 f rest]
  by (simp add: read_rows_fold row_step_first opt_list_def del: read_rows.simps)

lemma read_rows_notices:
  "snd (read_rows f k ls (data, out)) =
     out @ concat (map (\<lambda>(i, raw). opt_list (snd (row_step f i raw))) (enumerate k ls))"
  by (simp add: read_rows_fold del: read_rows.simps)

lemma startswith_append: "startswith (k @ y) k"
  by (induction k) auto

lemma contains_append: "contains k (x @ k @ y)"
proof (induction x)
  case Nil
  show ?case
    using startswith_append [of k y] by (cases "k @ y") auto
next
  case (Cons c x)
  then show ?case by simp
qed

lemma lower_append: "lower (a @ b) = lower a @ lower b"
  by (simp add: lower_def)

lemma isspace_bounds:
  "isspace c \<Longrightarrow> c \<le> 32 \<or> c = 133 \<or> c = 160 \<or> c = 5760 \<or> (8192 \<le> c \<and> c \<le> 8287) \<or> c = 12288"
  unfolding isspace_def in_ranges_def space_ranges_def by simp linarith

lemma lower_char_space: "isspace c \<Longrightarrow> lower_char c = [c]"
  using isspace_bounds [of c] by (auto simp: lower_char_def)

lemma space_in_lower: "isspace c \<Longrightarrow> c \<in> set u \<Longrightarrow> c \<in> set (lower u)"
  by (auto simp: lower_def lower_char_space intro!: bexI [of _ c])

lemma header_keyword_chars: "k \<in> set header_keywords \<Longrightarrow> c \<in> set k \<Longrightarrow> \<not> isspace c"
  by (auto simp: header_keywords_def ascii_def isspace_def in_ranges_def space_ranges_def)

lemma header_keyword_not_Nil: "k \<in> set header_keywords \<Longrightarrow> k \<noteq> []"
  by (auto simp: header_keywords_def ascii_def)

lemma strip_inner:
  assumes "u \<noteq> []" "\<forall>c\<in>set u. \<not> isspace c"
  shows "strip (a @ u @ b) = lstrip a @ u @ rstrip b"
proof -
  from assms obtain c v where u: "u = c # v" and c: "\<not> isspace c"
    by (cases u) auto
  from assms obtain w d where u': "u = w @ [d]" and d: "\<not> isspace d"
    by (cases u rule: rev_cases) auto
  have "lstrip (a @ u @ b) = lstrip a @ u @ b"
    using lstrip_append_nonspace [OF c, of a "v @ b"] by (simp add: u)
  moreover have "rstrip ((lstrip a @ w) @ d # b) = (lstrip a @ w) @ d # rstrip b"
    by (rule rstrip_append_nonspace [OF d])
  ultimately show ?thesis
    by (simp add: strip_def u')
qed

lemma keyword_row_skipped:
  assumes "lower u \<in> set header_keywords"
  shows "row_entry f (a @ u @ b) = None"
proof -
  have "u \<noteq> []"
    using assms header_keyword_not_Nil [of "lower u"] by (auto simp: lower_def)
  moreover have "\<forall>c\<in>set u. \<not> isspace c"
    using assms header_keyword_chars space_in_lower by blast
  ultimately have s: "strip (a @ u @ b) = lstrip a @ u @ rstrip b"
    by (rule strip_inner)
  have "contains (lower u) (lower (strip (a @ u @ b)))"
    by (simp add: s lower_append contains_append)
  with assms show ?thesis
    by (auto simp: row_entry_def)
qed

lemma no_float_row_skipped:
  "f (strip (split COMMA (strip raw) ! 1)) = None \<Longrightarrow> row_entry f raw = None"
  by (simp add: row_entry_def)

lemma enumerate_mid: "(k + length xs, y) \<in> set (enumerate k (xs @ y # ys))"
  by (simp add: enumerate_append_eq)

lemma notice_emitted:
  assumes "snd (row_step f (k + length pre) raw) = Some n"
  shows "n \<in> set (snd (read_rows f k (pre @ raw # post) ([], [])))"
proof -
  have "(k + length pre, raw) \<in> set (enumerate k (pre @ raw # post))"
    by (rule enumerate_mid)
  with assms show ?thesis
    by (force simp: read_rows_notices opt_list_def simp del: read_rows.simps)
qed

lemma good_row:
  "f (ascii ''45'') = Some v \<Longrightarrow>
     row_entry f (ascii ''2025-01-15,45'') = Some \<lparr>date = ascii ''2025-01-15'', minutes = v\<rparr>"
proof -
  assume v: "f (ascii ''45'') = Some v"
  have s: "strip (ascii ''2025-01-15,45'') = ascii ''2025-01-15,45''"
    by (simp add: str_eval)
  have p: "split COMMA (ascii ''2025-01-15,45'') = [ascii ''2025-01-15'', ascii ''45'']"
    by (simp add: ascii_def COMMA_def)
  have k: "\<not> (\<exists>keyword \<in> set header_keywords. contains keyword (lower (ascii ''2025-01-15,45'')))"
    by (simp add: header_keywords_def lower_def lower_char_def ascii_def)
  have t: "strip (ascii ''2025-01-15'') = ascii ''2025-01-15''" "strip (ascii ''45'') = ascii ''45''"
    by (simp_all add: str_eval)
  show ?thesis
    unfolding row_entry_def s p using k v t by (simp add: ascii_def)
qed

lemma bad_row_parts:
  "strip (ascii ''bad,row,x'') = ascii ''bad,row,x''"
  "split COMMA (ascii ''bad,row,x'') = [ascii ''bad'', ascii ''row'', ascii ''x'']"
  "strip (ascii ''row'') = ascii ''row''"
  "\<not> list_ex (\<lambda>keyword. contains keyword (lower (ascii ''bad,row,x''))) header_keywords"
  "ascii ''bad,row,x'' \<noteq> []"
      apply (simp add: str_eval)
    apply (simp add: ascii_def COMMA_def)
   apply (simp add: str_eval)
   apply (simp add: header_keywords_def lower_def lower_char_def ascii_def)
  apply (simp add: ascii_def)
  done

lemma bad_row_notice:
  "f (ascii ''row'') = None \<Longrightarrow> 1 < k \<Longrightarrow>
     row_step f k (ascii ''bad,row,x'') = (None, Some (Skipping_invalid k (ascii ''bad,row,x'')))"
  by (simp add: row_step_def Let_def bad_row_parts)

text \<open>
  Claim C6. Whatever the first line of the file holds, the series read is made of the
  later lines alone, each line adding what \<open>row_entry\<close> says by itself, so that a skipped row
  never ends the reading. A later line in which a header keyword occurs in any mix of
  capitals and small letters adds nothing. The row \<open>2025-01-15,45\<close> adds the entry of the
  date \<open>2025-01-15\<close> and of the number that \<open>float\<close> makes of \<open>45\<close>. A row whose second
  field is no number adds nothing; for the row \<open>bad,row,x\<close> the warning with its line
  number is printed and the rows around it are read.
\<close>

theorem csv_rows:
  "fst (read_rows float_of 1 (first # rest) ([], [])) = List.map_filter (row_entry float_of) rest \<and>
   (readlines contents = first # rest \<longrightarrow>
      read_daily_data float_of (Some contents) = List.map_filter (row_entry float_of) rest) \<and>
   (lower u \<in> set header_keywords \<longrightarrow> row_entry float_of (a @ u @ b) = None) \<and>
   (float_of (ascii ''45'') = Some v \<longrightarrow>
      row_entry float_of (ascii ''2025-01-15,45'') =
        Some \<lparr>date = ascii ''2025-01-15'', minutes = v\<rparr>) \<and>
   (float_of (strip (split COMMA (strip raw) ! 1)) = None \<longrightarrow> row_entry float_of raw = None) \<and>
   (float_of (ascii ''row'') = None \<longrightarrow>
      row_entry float_of (ascii ''bad,row,x'') = None \<and>
      Skipping_invalid (Suc (Suc (length pre))) (ascii ''bad,row,x'')
        \<in> set (snd (read_rows float_of 1 (first # pre @ ascii ''bad,row,x'' # post) ([], []))) \<and>
      fst (read_rows float_of 1 (first # pre @ ascii ''bad,row,x'' # post) ([], []))
        = List.map_filter (row_entry float_of) (pre @ post))"
proof (intro conjI impI)
  show "fst (read_rows float_of 1 (first # rest) ([], [])) = List.map_filter (row_entry float_of) rest"
    by (rule read_rows_data)
  show "read_daily_data float_of (Some contents) = List.map_filter (row_entry float_of) rest"
    if "readlines contents = first # rest"
    using that read_rows_data [of float_of first rest]
    by (simp add: read_daily_data_def del: read_rows.simps)
  show "row_entry float_of (a @ u @ b) = None" if "lower u \<in> set header_keywords"
    using that by (rule keyword_row_skipped)
  show "row_entry float_of (ascii ''2025-01-15,45'') = Some \<lparr>date = ascii ''2025-01-15'', minutes = v\<rparr>"
    if "float_of (ascii ''45'') = Some v"
    using that by (rule good_row)
  show "row_entry float_of raw = None" if "float_of (strip (split COMMA (strip raw) ! 1)) = None"
    using that by (rule no_float_row_skipped)
next
  assume r: "float_of (ascii ''row'') = None"
  then show bad: "row_entry float_of (ascii ''bad,row,x'') = None"
    by (intro no_float_row_skipped) (simp add: bad_row_parts)
  have "snd (row_step float_of (1 + length (first # pre)) (ascii ''bad,row,x''))
      = Some (Skipping_invalid (Suc (Suc (length pre))) (ascii ''bad,row,x''))"
    using r by (simp add: bad_row_notice)
  from notice_emitted [OF this]
  show "Skipping_invalid (Suc (Suc (length pre))) (ascii ''bad,row,x'')
        \<in> set (snd (read_rows float_of 1 (first # pre @ ascii ''bad,row,x'' # post) ([], [])))"
    by simp
  have "fst (read_rows float_of 1 (first # pre @ ascii ''bad,row,x'' # post) ([], []))
      = List.map_filter (row_entry float_of) (pre @ ascii ''bad,row,x'' # post)"
    by (rule read_rows_data)
  also have "\<dots> = List.map_filter (row_entry float_of) (pre @ post)"
    using bad by (simp add: map_filter_def)
  finally show "fst (read_rows float_of 1 (first # pre @ ascii ''bad,row,x'' # post) ([], []))
        = List.map_filter (row_entry float_of) (pre @ post)" .
qed

lemma readlines_csv_text:
  "readlines csv_text =
     [ascii ''2025-01-14,99'' @ [10], ascii ''2025-01-15,45'' @ [10], ascii ''bad,row,x'' @ [10],
      ascii ''Sleep Time,3'' @ [10], ascii ''2025-01-16,30'' @ [10]]"
  by (simp add: csv_text_def readlines_def ascii_def)

lemma float_of_digits_samples:
  "float_of_digits (ascii ''45'') = Some 45"
  "float_of_digits (ascii ''30'') = Some 30"
  "float_of_digits (ascii ''row'') = None"
  by (simp_all add: float_of_digits_def ascii_def decimal_value_def decimal_ranges_def)

lemma rows_csv_text:
  "row_entry float_of_digits (ascii ''2025-01-15,45'' @ [10]) =
     Some \<lparr>date = ascii ''2025-01-15'', minutes = 45\<rparr>"
  "row_entry float_of_digits (ascii ''2025-01-16,30'' @ [10]) =
     Some \<lparr>date = ascii ''2025-01-16'', minutes = 30\<rparr>"
  "row_entry float_of_digits (ascii ''bad,row,x'' @ [10]) = None"
  "row_entry float_of_digits (ascii ''Sleep Time,3'' @ [10]) = None"
proof -
  have s: "strip (ascii ''2025-01-15,45'' @ [10]) = ascii ''2025-01-15,45''"
    "strip (ascii ''2025-01-16,30'' @ [10]) = ascii ''2025-01-16,30''"
    "strip (ascii ''bad,row,x'' @ [10]) = ascii ''bad,row,x''"
    by (simp_all add: strip_snoc_space isspace_newline) (simp_all add: str_eval)
  have r: "row_entry f (x @ [10]) = row_entry f x" for f :: "pystr \<Rightarrow> rat option" and x
    by (simp add: row_entry_def strip_snoc_space isspace_newline)
  show "row_entry float_of_digits (ascii ''2025-01-15,45'' @ [10]) =
     Some \<lparr>date = ascii ''2025-01-15'', minutes = 45\<rparr>"
    by (simp add: r good_row float_of_digits_samples)
  have p: "split COMMA (ascii ''2025-01-16,30'') = [ascii ''2025-01-16'', ascii ''30'']"
    by (simp add: ascii_def COMMA_def)
  have k: "\<not> (\<exists>keyword \<in> set header_keywords. contains keyword (lower (ascii ''2025-01-16,30'')))"
    by (simp add: header_keywords_def lower_def lower_char_def ascii_def)
  have t: "strip (ascii ''2025-01-16'') = ascii ''2025-01-16''" "strip (ascii ''30'') = ascii ''30''"
    "strip (ascii ''2025-01-16,30'') = ascii ''2025-01-16,30''" "ascii ''2025-01-16,30'' \<noteq> []"
    by (simp_all add: str_eval)
  show "row_entry float_of_digits (ascii ''2025-01-16,30'' @ [10]) =
     Some \<lparr>date = ascii ''2025-01-16'', minutes = 30\<rparr>"
    unfolding r using k by (simp add: row_entry_def p t float_of_digits_samples)
  show "row_entry float_of_digits (ascii ''bad,row,x'' @ [10]) = None"
    by (simp add: r no_float_row_skipped bad_row_parts float_of_digits_samples)
  have "lower (ascii ''Time'') \<in> set header_keywords"
    by (simp add: header_keywords_def lower_def lower_char_def ascii_def)
  from keyword_row_skipped [OF this, of float_of_digits "ascii ''Sleep ''" "ascii '',3'' @ [10]"]
  show "row_entry float_of_digits (ascii ''Sleep Time,3'' @ [10]) = None"
    by (simp add: ascii_def)
qed

text \<open>
  A file of five lines, read with \<open>float_of_digits\<close>.
\<close>

theorem csv_rows_witness:
  "read_daily_data float_of_digits (Some csv_text) =
     [\<lparr>date = ascii ''2025-01-15'', minutes = 45\<rparr>, \<lparr>date = ascii ''2025-01-16'', minutes = 30\<rparr>] \<and>
   row_entry float_of_digits (ascii ''Sleep '' @ ascii ''Time'' @ ascii '',3'') = None \<and>
   row_entry float_of_digits (ascii ''2025-01-15,45'') = Some \<lparr>date = ascii ''2025-01-15'', minutes = 45\<rparr> \<and>
   Skipping_invalid 3 (ascii ''bad,row,x'')
     \<in> set (snd (read_rows float_of_digits 1
         ((ascii ''2025-01-14,99'' @ [10]) # [ascii ''2025-01-15,45'' @ [10]] @ ascii ''bad,row,x'' #
            [ascii ''Sleep Time,3'' @ [10], ascii ''2025-01-16,30'' @ [10]])
         ([], [])))"
proof -
  note inst = csv_rows [where float_of = float_of_digits
      and first = "ascii ''2025-01-14,99'' @ [10]"
      and rest = "[ascii ''2025-01-15,45'' @ [10], ascii ''bad,row,x'' @ [10],
        ascii ''Sleep Time,3'' @ [10], ascii ''2025-01-16,30'' @ [10]]"
      and contents = csv_text and u = "ascii ''Time''" and a = "ascii ''Sleep ''" and b = "ascii '',3''"
      and v = 45 and pre = "[ascii ''2025-01-15,45'' @ [10]]"
      and post = "[ascii ''Sleep Time,3'' @ [10], ascii ''2025-01-16,30'' @ [10]]"]
  have k: "lower (ascii ''Time'') \<in> set header_keywords"
    by (simp add: header_keywords_def lower_def lower_char_def ascii_def)
  from inst readlines_csv_text
  have "read_daily_data float_of_digits (Some csv_text) =
     List.map_filter (row_entry float_of_digits)
       [ascii ''2025-01-15,45'' @ [10], ascii ''bad,row,x'' @ [10],
        ascii ''Sleep Time,3'' @ [10], ascii ''2025-01-16,30'' @ [10]]"
    by blast
  then have 1: "read_daily_data float_of_digits (Some csv_text) =
     [\<lparr>date = ascii ''2025-01-15'', minutes = 45\<rparr>, \<lparr>date = ascii ''2025-01-16'', minutes = 30\<rparr>]"
    by (simp add: map_filter_def rows_csv_text)
  from inst k have 2: "row_entry float_of_digits (ascii ''Sleep '' @ ascii ''Time'' @ ascii '',3'') = None"
    by blast
  from inst float_of_digits_samples(1)
  have 3: "row_entry float_of_digits (ascii ''2025-01-15,45'') = Some \<lparr>date = ascii ''2025-01-15'', minutes = 45\<rparr>"
    by blast
  from inst float_of_digits_samples(3)
  have "Skipping_invalid (Suc (Suc (length [ascii ''2025-01-15,45'' @ [10]]))) (ascii ''bad,row,x'')
     \<in> set (snd (read_rows float_of_digits 1
         ((ascii ''2025-01-14,99'' @ [10]) # [ascii ''2025-01-15,45'' @ [10]] @ ascii ''bad,row,x'' #
            [ascii ''Sleep Time,3'' @ [10], ascii ''2025-01-16,30'' @ [10]])
         ([], [])))"
    by blast
  moreover have "Suc (Suc (length [ascii ''2025-01-15,45'' @ [10]])) = 3"
    by simp
  ultimately have 4: "Skipping_invalid 3 (ascii ''bad,row,x'')
     \<in> set (snd (read_rows float_of_digits 1
         ((ascii ''2025-01-14,99'' @ [10]) # [ascii ''2025-01-15,45'' @ [10]] @ ascii ''bad,row,x'' #
            [ascii ''Sleep Time,3'' @ [10], ascii ''2025-01-16,30'' @ [10]])
         ([], [])))"
    by (simp only:)
  from 1 2 3 4 show ?thesis by (intro conjI)
qed

section \<open>Pattern analysis and weekly summary: properties\<close>




lemma tally_loop_sum:
  "intensity_sum (tally_loop sp ts s) =
     intensity_sum s + sum_list (map intensity (filter (parses sp) ts))"
  by (induction ts arbitrary: s) (auto simp: parses_def split: option.splits)

lemma bump_not_Nil: "bump k d \<noteq> []"
  by (cases d) (auto split: if_splits)

lemma first_max_None: "first_max d = None \<longleftrightarrow> d = []"
  by (cases d) (auto split: option.splits)

lemma tally_loop_hours:
  "hour_counts (tally_loop sp ts s) = [] \<longleftrightarrow> hour_counts s = [] \<and> filter (parses sp) ts = []"
  by (induction ts arbitrary: s) (auto simp: parses_def bump_not_Nil split: option.splits)

lemma tally_loop_periods:
  "period_counts (tally_loop sp ts s) = [] \<longleftrightarrow> period_counts s = [] \<and> filter (parses sp) ts = []"
  by (induction ts arbitrary: s) (auto simp: parses_def bump_not_Nil split: option.splits)

text \<open>
  The average of \<open>analyze_patterns\<close> in general: the sum over the episodes whose
  timestamp parses, divided by the number of all episodes.
\<close>

lemma analyze_patterns_average:
  assumes "filter (parses sp) ts \<noteq> []"
  shows "\<exists>i. analyze_patterns sp ts = Inr (Insights i) \<and>
           avg_intensity i =
             of_int (sum_list (map intensity (filter (parses sp) ts))) / of_nat (length ts)"
proof -
  let ?s = "tally_loop sp ts \<lparr>hour_counts = [], period_counts = [], category_counts = [],
                    intensity_sum = 0\<rparr>"
  from assms have ne: "ts \<noteq> []" by auto
  from assms obtain h where h: "first_max (hour_counts ?s) = Some h"
    using first_max_None [of "hour_counts ?s"] by (auto simp: tally_loop_hours)
  from assms obtain p where p: "first_max (period_counts ?s) = Some p"
    using first_max_None [of "period_counts ?s"] by (auto simp: tally_loop_periods)
  show ?thesis
    using ne h p
    by (cases h; cases p) (simp add: analyze_patterns_def Let_def tally_loop_sum)
qed

lemma mixed_log_loaded: "load_lines mixed_log [] = (mixed_thoughts, None)"
proof -
  have p: "PIPE \<notin> set (ascii ''2025-01-15 10:30:00'')" "PIPE \<notin> set ([127919, 32] @ ascii ''Other'')"
    "PIPE \<notin> set (ascii ''8'')" "PIPE \<notin> set (ascii ''call mom'' @ [10])"
    "PIPE \<notin> set (ascii ''yesterday'')" "PIPE \<notin> set (ascii ''2'')"
    "PIPE \<notin> set (ascii ''shopping'' @ [10])"
    by (simp_all add: ascii_def PIPE_def)
  have "load_line (ascii ''2025-01-15 10:30:00'' @ PIPE # ([127919, 32] @ ascii ''Other'') @ PIPE #
       ascii ''8'' @ PIPE # (ascii ''call mom'' @ [10]))
     = fields_result (ascii ''2025-01-15 10:30:00'') ([127919, 32] @ ascii ''Other'') (ascii ''8'')
         (ascii ''call mom'' @ [10])"
    using p by (intro load_line_four)
  moreover have "load_line (ascii ''yesterday'' @ PIPE # ([127919, 32] @ ascii ''Other'') @ PIPE #
       ascii ''2'' @ PIPE # (ascii ''shopping'' @ [10]))
     = fields_result (ascii ''yesterday'') ([127919, 32] @ ascii ''Other'') (ascii ''2'')
         (ascii ''shopping'' @ [10])"
    using p by (intro load_line_four)
  moreover have "strip (ascii ''8'') = ascii ''8''" "strip (ascii ''2'') = ascii ''2''"
    "isdigit (ascii ''8'')" "isdigit (ascii ''2'')"
    "py_int (ascii ''8'') = Inr 8" "py_int (ascii ''2'') = Inr 2"
    by (simp_all add: str_eval)
      (simp_all add: ascii_def digit_eval py_int_def int_space_def isspace_def space_ranges_def
        decimal_value_def max_str_digits_def)
  moreover have "strip (ascii ''2025-01-15 10:30:00'') = ascii ''2025-01-15 10:30:00''"
    "strip ([127919, 32] @ ascii ''Other'') = [127919, 32] @ ascii ''Other''"
    "strip (ascii ''call mom'' @ [10]) = ascii ''call mom''"
    "strip (ascii ''yesterday'') = ascii ''yesterday''"
    "strip (ascii ''shopping'' @ [10]) = ascii ''shopping''"
    by (simp_all add: str_eval)
  ultimately show ?thesis
    by (simp add: mixed_log_def mixed_thoughts_def fields_result_def PIPE_def ascii_def)
qed

lemma strptime_std_samples:
  "strptime_std (ascii ''2025-01-15 10:30:00'') = Some 63872533800000000"
  "strptime_std (ascii ''yesterday'') = None"
  by (simp_all add: strptime_std_def ascii_def ascii_number_def decimal_value_def decimal_ranges_def
      days_in_month_def is_leap_def instant_def days_before_year_def days_before_month_def
      upt_conv_Cons)

text \<open>
  Claim C7 at a log of two lines, the second with the timestamp \<open>yesterday\<close>. Both lines
  load; the analysis adds up the intensity of the first episode alone, 8, and divides by the
  number of all episodes, 2: the average shown is 4, while the mean over the episodes whose
  timestamp parses is 8.
\<close>

theorem average_over_all_episodes:
  "load_lines mixed_log [] = (mixed_thoughts, None) \<and>
   analyze_patterns strptime_std mixed_thoughts =
     Inr (Insights \<lparr>episodes = 2, avg_intensity = 4, peak_hour = 10,
            peak_period = [127749, 32] @ ascii ''Morning'',
            top_category = ([127919, 32] @ ascii ''Other'', 1)\<rparr>) \<and>
   intensity_avg (filter (\<lambda>t. strptime_std (timestamp t) \<noteq> None) mixed_thoughts) = 8"
proof -
  have "hour_of 63872533800000000 = 10"
    by (simp add: hour_of_def)
  then show ?thesis
    by (simp add: mixed_log_loaded)
      (simp add: mixed_thoughts_def analyze_patterns_def strptime_std_samples get_time_period_def
        intensity_avg_def)
qed



section \<open>Persistence and dry-run mode\<close>

lemma log_overthinking_dry:
  assumes "dry_run tr" "log_overthinking inp stamp tr d = (tr', d')"
  shows "d' = d \<and> dry_run tr'"
  using assms
  by (auto simp: log_overthinking_def Let_def save_thoughts_def
      split: if_splits option.splits sum.splits)

lemma main_step_dry:
  assumes "dry_run (tracker s)" "strip typed \<noteq> ascii ''5''"
    and "main_step float_of inp stamp typed s = Some s'"
  shows "disk s' = disk s \<and> dry_run (tracker s')"
proof (cases "strip typed = ascii ''1''")
  case True
  obtain tr d where l: "log_overthinking inp stamp (tracker s) (disk s) = (tr, d)"
    by (cases "log_overthinking inp stamp (tracker s) (disk s)")
  with assms True have "s' = s\<lparr>tracker := tr, disk := d\<rparr>"
    by (simp add: main_step_def)
  with log_overthinking_dry [OF assms(1) l] show ?thesis by simp
next
  case False
  with assms show ?thesis
    by (auto simp: main_step_def Let_def split: if_splits sum.splits option.splits)
qed

lemma main_step_export:
  assumes "last_export s = Some (st, data)" "strip typed = ascii ''5''"
  shows "main_step float_of inp stamp typed s =
           Some (s\<lparr>disk := (disk s)\<lparr>report_file :=
                   Some \<lparr>generated = stamp, summary = st, breakdown = data\<rparr>\<rparr>\<rparr>)"
  using assms by (simp add: main_step_def export_report_def ascii_def)

text \<open>
  Claim C9, as amended. In dry-run mode \<open>save_thoughts\<close> leaves the files as they are;
  the log is loaded as without the flag; every turn of the menu other than the export of
  the report leaves the files as they are and keeps the flag. The export of the report
  does not look at the flag: once statistics are kept, it writes the report file.
\<close>

theorem dry_run_gates_log:
  "(dry_run tr \<longrightarrow> save_thoughts tr d = d) \<and>
   thoughts (tracker_init True d) = thoughts (tracker_init False d) \<and>
   (dry_run (tracker s) \<and> strip typed \<noteq> ascii ''5'' \<and>
    main_step float_of inp stamp typed s = Some s' \<longrightarrow>
      disk s' = disk s \<and> dry_run (tracker s')) \<and>
   (last_export s = Some (st, data) \<and> strip typed = ascii ''5'' \<longrightarrow>
      main_step float_of inp stamp typed s =
        Some (s\<lparr>disk := (disk s)\<lparr>report_file :=
                Some \<lparr>generated = stamp, summary = st, breakdown = data\<rparr>\<rparr>\<rparr>))"
proof (intro conjI impI)
  show "save_thoughts tr d = d" if "dry_run tr"
    using that by (simp add: save_thoughts_def)
  show "thoughts (tracker_init True d) = thoughts (tracker_init False d)"
    by (simp add: tracker_init_def)
  show "disk s' = disk s" "dry_run (tracker s')"
    if "dry_run (tracker s) \<and> strip typed \<noteq> ascii ''5'' \<and>
        main_step float_of inp stamp typed s = Some s'"
    using that main_step_dry [of s typed float_of inp stamp s'] by simp_all
  show "main_step float_of inp stamp typed s =
        Some (s\<lparr>disk := (disk s)\<lparr>report_file :=
                Some \<lparr>generated = stamp, summary = st, breakdown = data\<rparr>\<rparr>\<rparr>)"
    if "last_export s = Some (st, data) \<and> strip typed = ascii ''5''"
    using that by (simp add: main_step_export)
qed

lemma csv_text_read: "read_daily_data float_of_digits (Some csv_text) = csv_data"
proof -
  have "fst (read_rows float_of_digits 1 (readlines csv_text) ([], [])) = csv_data"
    unfolding readlines_csv_text read_rows_data
    by (simp add: map_filter_def rows_csv_text csv_data_def)
  then show ?thesis
    by (simp add: read_daily_data_def del: read_rows.simps)
qed

lemma csv_data_stats: "calculate_stats csv_data = Inr (Some csv_stats)"
proof -
  have "calculate_median [45, 30] = Inr (75 / 2)"
    by (simp add: calculate_median_nonempty)
  moreover have "calculate_trend [45, 30] = ascii ''improving''"
    by (simp add: calculate_trend_halves mean_def)
  ultimately show ?thesis
    by (simp add: calculate_stats_def csv_data_def csv_stats_def py_max_def py_min_def)
qed

lemma dry_start_tracker: "tracker dry_start = \<lparr>thoughts = [], dry_run = True\<rparr>"
  by (simp add: dry_start_def tracker_init_def load_thoughts_def start_disk_def)

lemma step_analyze:
  "main_step float_of_digits sample_answers stamp0 (ascii ''4'') dry_start = Some dry_analyzed"
proof -
  have "strip (ascii ''4'') = ascii ''4''"
    by (simp add: str_eval)
  moreover have "analyze_daily_data float_of_digits (disk dry_start) = Inr (Some csv_stats)"
    by (simp add: analyze_daily_data_def dry_start_def start_disk_def csv_text_read csv_data_stats)
      (simp add: csv_data_def)
  moreover have "read_daily_data float_of_digits (daily_file (disk dry_start)) = csv_data"
    by (simp add: dry_start_def start_disk_def csv_text_read)
  ultimately show ?thesis
    by (simp add: main_step_def dry_analyzed_def) (simp add: ascii_def)
qed

lemma step_log:
  "main_step float_of_digits sample_answers stamp0 (ascii ''1'') dry_start = Some dry_logged"
proof -
  have "strip (ascii ''1'') = ascii ''1''" "strip (ascii '' 7'') = ascii ''7''"
    "strip (ascii ''8'') = ascii ''8''" "strip (ascii ''call mom '') = ascii ''call mom''"
    by (simp_all add: str_eval)
  moreover have "lower (ascii ''7'') \<noteq> ascii ''cancel''"
    by (simp add: lower_def lower_char_def ascii_def)
  moreover have "map_of CATEGORIES (ascii ''7'') = Some ([127919, 32] @ ascii ''Other'')"
    by (simp add: CATEGORIES_def ascii_def)
  moreover have "py_int (ascii ''8'') = Inr 8"
    by (simp add: ascii_def int_eval)
  ultimately have "log_overthinking sample_answers stamp0 (tracker dry_start) (disk dry_start)
      = (tracker dry_logged, disk dry_start)"
    by (simp add: log_overthinking_def sample_answers_def dry_start_tracker save_thoughts_def
        dry_logged_def)
  with \<open>strip (ascii ''1'') = ascii ''1''\<close> show ?thesis
    by (simp add: main_step_def dry_logged_def)
qed

text \<open>
  A dry-run session in which an episode is logged: the episode is in memory, the files
  are unchanged.
\<close>

theorem dry_run_gates_log_witness:
  "dry_run (tracker dry_start) \<and>
   main_step float_of_digits sample_answers stamp0 (ascii ''1'') dry_start = Some dry_logged \<and>
   disk dry_logged = disk dry_start \<and>
   thoughts (tracker dry_logged) \<noteq> thoughts (tracker dry_start) \<and>
   save_thoughts (tracker dry_logged) (disk dry_logged) = disk dry_logged"
proof -
  note inst = dry_run_gates_log [of "tracker dry_logged" "disk dry_logged" dry_start "ascii ''1''"
      float_of_digits sample_answers stamp0 dry_logged]
  have d: "dry_run (tracker dry_start)" "dry_run (tracker dry_logged)"
    by (simp_all add: dry_start_tracker dry_logged_def)
  have n: "strip (ascii ''1'') \<noteq> ascii ''5''"
    by (simp add: str_eval)
  from inst d n step_log have "disk dry_logged = disk dry_start"
    by blast
  moreover from inst d have "save_thoughts (tracker dry_logged) (disk dry_logged) = disk dry_logged"
    by blast
  moreover have "thoughts (tracker dry_logged) \<noteq> thoughts (tracker dry_start)"
    by (simp add: dry_start_tracker dry_logged_def)
  ultimately show ?thesis
    using d step_log by blast
qed

text \<open>
  Claim C9 as stated fails: in a dry-run session, after the analysis of the CSV file,
  the export writes a report file that did not exist before.
\<close>

theorem dry_run_export_counterexample:
  "dry_run (tracker dry_analyzed) \<and>
   main_step float_of_digits sample_answers stamp0 (ascii ''4'') dry_start = Some dry_analyzed \<and>
   report_file (disk dry_analyzed) = None \<and>
   map_option (\<lambda>s. report_file (disk s))
     (main_step float_of_digits sample_answers stamp0 (ascii ''5'') dry_analyzed) =
     Some (Some \<lparr>generated = stamp0, summary = csv_stats, breakdown = csv_data\<rparr>)"
proof -
  have "strip (ascii ''5'') = ascii ''5''"
    by (simp add: str_eval)
  moreover have "last_export dry_analyzed = Some (csv_stats, csv_data)"
    by (simp add: dry_analyzed_def)
  ultimately have "main_step float_of_digits sample_answers stamp0 (ascii ''5'') dry_analyzed =
      Some (dry_analyzed\<lparr>disk := (disk dry_analyzed)\<lparr>report_file :=
                Some \<lparr>generated = stamp0, summary = csv_stats, breakdown = csv_data\<rparr>\<rparr>\<rparr>)"
    by (intro main_step_export)
  moreover have "dry_run (tracker dry_analyzed)" "report_file (disk dry_analyzed) = None"
    by (simp_all add: dry_analyzed_def dry_start_tracker) (simp add: dry_start_def start_disk_def)
  ultimately show ?thesis
    using step_analyze by simp
qed

section \<open>The round trip of an episode\<close>









end
